theory Spec2Isabelle
  imports Main "HOL-Library.Word"
begin

unbundle bit_operations_syntax

section \<open>The thumbnail provider of \<^verbatim>\<open>preview_handler.cpp\<close>\<close>

text \<open>
  The provider is a class with one field that matters, \<^verbatim>\<open>m_filePath\<close>, and four
  methods: \<^verbatim>\<open>GetThumbnail\<close>, \<^verbatim>\<open>GenerateThumbnail\<close>, \<^verbatim>\<open>FindWireTunerCLI\<close> and
  \<^verbatim>\<open>GeneratePlaceholder\<close>. Every method talks to the operating system (kernel32,
  shlwapi, GDI+). The answers of the operating system are the fields of a record
  \<open>World\<close>; every question a method asks is appended to a list of \<open>Call\<close>s, so that
  what a run did not do can be stated as well as what it did.
\<close>

subsection \<open>Windows types\<close>

type_synonym wstring = string
type_synonym UINT = "32 word"
type_synonym DWORD = "32 word"
type_synonym INT32 = "32 word"
type_synonym ULONGLONG = "64 word"
type_synonym HANDLE = nat

text \<open>
  An \<^verbatim>\<open>INT\<close> (here \<open>INT32\<close>) is its 32 bits, read as a signed number by \<open>sint\<close>;
  the conversion between \<^verbatim>\<open>UINT\<close> and \<^verbatim>\<open>INT\<close> keeps the bits.
\<close>

text \<open>The backslash and the double quote cannot be written inside a string literal.\<close>

definition BSLASH :: char where
  "BSLASH = CHR 0x5C"

definition DQUOTE :: char where
  "DQUOTE = CHR 0x22"

text \<open>The only two \<^verbatim>\<open>HRESULT\<close> values the file uses, and the \<^verbatim>\<open>FAILED\<close> macro on them.\<close>

datatype HRESULT = S_OK | E_FAIL

fun FAILED :: "HRESULT \<Rightarrow> bool" where
  "FAILED S_OK = False"
| "FAILED E_FAIL = True"

datatype WTS_ALPHATYPE = WTSAT_UNKNOWN | WTSAT_RGB | WTSAT_ARGB

record FILETIME =
  dwLowDateTime :: DWORD
  dwHighDateTime :: DWORD

record PROCESS_INFORMATION =
  hProcess :: HANDLE
  hThread :: HANDLE

definition WAIT_OBJECT_0 :: DWORD where
  "WAIT_OBJECT_0 = 0"

definition WAIT_TIMEOUT :: DWORD where
  "WAIT_TIMEOUT = 0x102"

subsection \<open>GDI+ values\<close>

text \<open>
  A \<^verbatim>\<open>Color\<close> is its four channels, alpha first. The three-argument constructor
  \<^verbatim>\<open>Color(r, g, b)\<close> sets alpha to 255, the four-argument one takes alpha first.
\<close>

datatype Color = ARGB "8 word" "8 word" "8 word" "8 word"

definition Color3 :: "8 word \<Rightarrow> 8 word \<Rightarrow> 8 word \<Rightarrow> Color" where
  "Color3 r g b = ARGB 255 r g b"

definition Color4 :: "8 word \<Rightarrow> 8 word \<Rightarrow> 8 word \<Rightarrow> 8 word \<Rightarrow> Color" where
  "Color4 a r g b = ARGB a r g b"

text \<open>
  The two \<^verbatim>\<open>Graphics\<close> calls of the file, with the brush colour and the four
  \<^verbatim>\<open>INT\<close> arguments x, y, width, height. How GDI+ rasterises them is not part of the
  repository; a drawn bitmap is the list of the calls made on it.
\<close>

datatype FillCall =
    FillRectangle Color INT32 INT32 INT32 INT32
  | FillEllipse Color INT32 INT32 INT32 INT32

text \<open>
  A \<^verbatim>\<open>Bitmap\<close> is either decoded from a file (\<^verbatim>\<open>Bitmap::FromFile\<close>: the path and
  the width and height found in the file) or created blank with \<^verbatim>\<open>INT\<close> width and
  height (\<^verbatim>\<open>Bitmap(width, height, PixelFormat32bppARGB)\<close>) and drawn on.
\<close>

datatype Bitmap =
    FromFile wstring UINT UINT
  | Blank32bppARGB INT32 INT32 "FillCall list"

fun GetWidth :: "Bitmap \<Rightarrow> UINT" where
  "GetWidth (FromFile p w h) = w"
| "GetWidth (Blank32bppARGB w h calls) = w"

fun GetHeight :: "Bitmap \<Rightarrow> UINT" where
  "GetHeight (FromFile p w h) = h"
| "GetHeight (Blank32bppARGB w h calls) = h"

text \<open>
  An \<^verbatim>\<open>HBITMAP\<close> is \<^verbatim>\<open>NULL\<close> or a handle to the GDI bitmap that
  \<^verbatim>\<open>Bitmap::GetHBITMAP\<close> made from a bitmap and a background colour.
\<close>

datatype GdiBitmap = GdiBitmap (source: Bitmap) (background: Color)

type_synonym HBITMAP = "GdiBitmap option"

abbreviation NULL :: HBITMAP where
  "NULL \<equiv> None"

subsection \<open>The operating system\<close>

text \<open>
  One field for each system function the file calls, named after it.
  \<^item> \<open>GetTempPathW\<close>: the temporary directory, as the system returns it.
  \<^item> \<open>GetFileAttributesExW\<close>: the last write time of a path, \<open>None\<close> when the call fails.
  \<^item> \<open>PathFileExistsW\<close>: whether a path exists when it is probed (every probe of a run
    happens before the renderer is started).
  \<^item> \<open>GetEnvironmentVariableW\<close>: the value of a variable, \<open>None\<close> when it is not set.
  \<^item> \<open>CreateProcessW\<close>: the handles of the process started from a command line, \<open>None\<close>
    when the launch fails.
  \<^item> \<open>WaitForSingleObject\<close>: the result of waiting on a handle for the given number of
    milliseconds.
  \<^item> \<open>GetExitCodeProcess\<close>: the exit code read from a handle, \<open>None\<close> when the call
    fails and leaves its output untouched.
  \<^item> \<open>ImageFile\<close>: what \<^verbatim>\<open>Bitmap::FromFile\<close> finds at a path when the file is loaded
    (after the renderer, if it ran): its width and height, or \<open>None\<close> when the result
    is null or its status is not \<^verbatim>\<open>Ok\<close>.
  \<^item> \<open>GetHBITMAP_Ok\<close>: whether \<^verbatim>\<open>Bitmap::GetHBITMAP\<close> succeeds on a bitmap.
\<close>

record World =
  GetTempPathW :: wstring
  GetFileAttributesExW :: "wstring \<Rightarrow> FILETIME option"
  PathFileExistsW :: "wstring \<Rightarrow> bool"
  GetEnvironmentVariableW :: "wstring \<Rightarrow> wstring option"
  CreateProcessW :: "wstring \<Rightarrow> PROCESS_INFORMATION option"
  WaitForSingleObject :: "HANDLE \<Rightarrow> DWORD \<Rightarrow> DWORD"
  GetExitCodeProcess :: "HANDLE \<Rightarrow> DWORD option"
  ImageFile :: "wstring \<Rightarrow> (UINT \<times> UINT) option"
  GetHBITMAP_Ok :: "Bitmap \<Rightarrow> bool"

datatype Call =
    Call_GetTempPathW
  | Call_CreateDirectoryW wstring
  | Call_GetFileAttributesExW wstring
  | Call_PathFileExistsW wstring
  | Call_GetEnvironmentVariableW wstring
  | Call_CreateProcessW wstring
  | Call_WaitForSingleObject HANDLE DWORD
  | Call_GetExitCodeProcess HANDLE
  | Call_CloseHandle HANDLE
  | Call_Bitmap_FromFile wstring
  | Call_GetHBITMAP Bitmap

text \<open>The calls that look for something: a path probe or an environment lookup.\<close>

fun isProbe :: "Call \<Rightarrow> bool" where
  "isProbe (Call_PathFileExistsW p) = True"
| "isProbe (Call_GetEnvironmentVariableW v) = True"
| "isProbe c = False"

text \<open>The fields of the class.\<close>

record WireTunerThumbnailProvider =
  m_refCount :: "32 word"
  m_gdiplusToken :: "64 word"
  m_filePath :: wstring

subsection \<open>\<^verbatim>\<open>FindWireTunerCLI\<close>\<close>

definition searchPaths :: "wstring list" where
  "searchPaths =
     [''C:'' @ [BSLASH] @ ''Program Files'' @ [BSLASH] @ ''WireTuner'' @ [BSLASH] @ ''wiretuner.exe'',
      ''C:'' @ [BSLASH] @ ''Program Files (x86)'' @ [BSLASH] @ ''WireTuner'' @ [BSLASH] @ ''wiretuner.exe'']"

text \<open>
  The \<^verbatim>\<open>for\<close> loop over \<^verbatim>\<open>searchPaths\<close>: the first path that exists is returned.
  \<open>None\<close> means the loop reached the terminating \<^verbatim>\<open>NULL\<close> entry.
\<close>

fun checkSearchPaths :: "World \<Rightarrow> wstring list \<Rightarrow> wstring option \<times> Call list" where
  "checkSearchPaths w [] = (None, [])"
| "checkSearchPaths w (p # ps) =
     (if PathFileExistsW w p then (Some p, [Call_PathFileExistsW p])
      else (let (r, calls) = checkSearchPaths w ps in (r, Call_PathFileExistsW p # calls)))"

text \<open>\<^verbatim>\<open>std::wstring::find\<close> of one character: its first position, \<open>None\<close> for \<^verbatim>\<open>npos\<close>.\<close>

fun wfind :: "char \<Rightarrow> wstring \<Rightarrow> nat option" where
  "wfind c [] = None"
| "wfind c (x # xs) = (if x = c then Some 0 else map_option Suc (wfind c xs))"

text \<open>
  The \<^verbatim>\<open>while\<close> loop over \<^verbatim>\<open>path\<close>: as long as a semicolon is found, the text before
  it is a directory; the directory followed by a backslash and \<^verbatim>\<open>wiretuner.exe\<close> is
  probed and returned when it exists,
  otherwise the directory and its semicolon are erased. When no semicolon is left the
  loop ends and the function falls through to \<^verbatim>\<open>return L""\<close>.
\<close>

function scanPATH :: "World \<Rightarrow> wstring \<Rightarrow> wstring \<times> Call list" where
  "scanPATH w path =
     (case wfind CHR '';'' path of
        None \<Rightarrow> ([], [])
      | Some pos \<Rightarrow>
          (let dir = take pos path;
               exePath = dir @ [BSLASH] @ ''wiretuner.exe''
           in if PathFileExistsW w exePath then (exePath, [Call_PathFileExistsW exePath])
              else (let (r, calls) = scanPATH w (drop (pos + 1) path)
                    in (r, Call_PathFileExistsW exePath # calls))))"
  by pat_completeness auto
termination
proof (relation "measure (\<lambda>(w, path). length path)")
  show "wf (measure (\<lambda>(w, path). length path))"
    by simp
next
  fix w :: World and path :: wstring and pos :: nat
  assume found: "wfind CHR '';'' path = Some pos"
  have less: "n < length s" if "wfind c s = Some n" for c s n
    using that by (induction s arbitrary: n) (auto split: if_splits)
  from less [OF found] have "pos < length path" .
  then show "((w, drop (pos + 1) path), (w, path)) \<in> measure (\<lambda>(w, path). length path)"
    by simp
qed

declare scanPATH.simps [simp del]

definition FindWireTunerCLI :: "World \<Rightarrow> wstring \<times> Call list" where
  "FindWireTunerCLI w =
     (case checkSearchPaths w searchPaths of
        (Some p, calls) \<Rightarrow> (p, calls)
      | (None, calls) \<Rightarrow>
          (case GetEnvironmentVariableW w ''PATH'' of
             None \<Rightarrow> ([], calls @ [Call_GetEnvironmentVariableW ''PATH''])
           | Some pathBuf \<Rightarrow>
               (if length pathBuf > 0
                then (let (r, calls') = scanPATH w pathBuf
                      in (r, calls @ [Call_GetEnvironmentVariableW ''PATH''] @ calls'))
                else ([], calls @ [Call_GetEnvironmentVariableW ''PATH'']))))"

text \<open>
  The search order in the words of the specification: a list of candidate paths, of which
  the first that exists wins. \<open>splitOn\<close> splits a text at every occurrence of a character
  (a text without the character is one piece), \<open>exeIn\<close> is the renderer in a directory,
  \<open>firstExisting\<close> is the first candidate that exists, the empty string when none does.
\<close>

fun splitOn :: "char \<Rightarrow> wstring \<Rightarrow> wstring list" where
  "splitOn c [] = [[]]"
| "splitOn c (x # xs) =
     (if x = c then [] # splitOn c xs
      else (case splitOn c xs of [] \<Rightarrow> [[x]] | s # ss \<Rightarrow> (x # s) # ss))"

definition exeIn :: "wstring \<Rightarrow> wstring" where
  "exeIn dir = dir @ [BSLASH] @ ''wiretuner.exe''"

definition firstExisting :: "World \<Rightarrow> wstring list \<Rightarrow> wstring" where
  "firstExisting w ps = (case List.find (PathFileExistsW w) ps of None \<Rightarrow> [] | Some p \<Rightarrow> p)"

subsection \<open>Formatting\<close>

text \<open>The conversions \<^verbatim>\<open>%llu\<close> and \<^verbatim>\<open>%u\<close>: an unsigned number in decimal, no padding.\<close>

fun decimal :: "nat \<Rightarrow> wstring" where
  "decimal n =
     (if n < 10 then [''0123456789'' ! n]
      else decimal (n div 10) @ [''0123456789'' ! (n mod 10)])"

declare decimal.simps [simp del]

text \<open>
  \<^verbatim>\<open>swprintf_s\<close> into a buffer of \<open>cap\<close> wide characters: the formatted text and its
  terminator must fit. When they do not, the C runtime calls the invalid-parameter
  handler, which ends the process: the result \<open>None\<close>.
\<close>

definition swprintf_s :: "nat \<Rightarrow> wstring \<Rightarrow> wstring option" where
  "swprintf_s cap text = (if length text < cap then Some text else None)"

text \<open>
  \<^verbatim>\<open>PathFindFileNameW\<close> of shlwapi, as documented: the result starts after the last
  backslash, slash or colon that is followed by a character other than a backslash or
  a slash, and is the whole path when there is none.
\<close>

fun PathFindFileNameW_scan :: "wstring \<Rightarrow> wstring \<Rightarrow> wstring" where
  "PathFindFileNameW_scan lastSlash [] = lastSlash"
| "PathFindFileNameW_scan lastSlash (c # cs) =
     (if (c = BSLASH \<or> c = CHR ''/'' \<or> c = CHR '':'') \<and>
         (case cs of [] \<Rightarrow> False | n # _ \<Rightarrow> n \<noteq> BSLASH \<and> n \<noteq> CHR ''/'')
      then PathFindFileNameW_scan cs cs
      else PathFindFileNameW_scan lastSlash cs)"

definition PathFindFileNameW :: "wstring \<Rightarrow> wstring" where
  "PathFindFileNameW path = PathFindFileNameW_scan path path"

subsection \<open>\<^verbatim>\<open>GenerateThumbnail\<close>\<close>

definition cacheDir :: "World \<Rightarrow> wstring" where
  "cacheDir w = GetTempPathW w @ ''wiretuner-thumbnails'' @ [BSLASH]"

text \<open>\<^verbatim>\<open>ULARGE_INTEGER\<close>: the 64-bit value of a low and a high part.\<close>

definition QuadPart :: "FILETIME \<Rightarrow> ULONGLONG" where
  "QuadPart ft = push_bit 32 (ucast (dwHighDateTime ft)) OR ucast (dwLowDateTime ft)"

text \<open>
  \<^verbatim>\<open>swprintf_s(cacheKey, L"%s-%llu-%u.png", PathFindFileNameW(m_filePath), modTime, cx)\<close>
  with \<^verbatim>\<open>wchar_t cacheKey[512]\<close>.
\<close>

definition cacheKeyText :: "wstring \<Rightarrow> ULONGLONG \<Rightarrow> UINT \<Rightarrow> wstring" where
  "cacheKeyText filePath modTime cx =
     PathFindFileNameW filePath @ ''-'' @ decimal (unat modTime) @ ''-'' @ decimal (unat cx) @ ''.png''"

definition cacheKey :: "wstring \<Rightarrow> ULONGLONG \<Rightarrow> UINT \<Rightarrow> wstring option" where
  "cacheKey filePath modTime cx = swprintf_s 512 (cacheKeyText filePath modTime cx)"

text \<open>
  \<^verbatim>\<open>swprintf_s(cmdLine, ...)\<close> with \<^verbatim>\<open>wchar_t cmdLine[2048]\<close>: the renderer, the file
  and the output path, each between double quotes, with \<^verbatim>\<open>--generate-thumbnail\<close> after the
  first and \<^verbatim>\<open>--size\<close> and the size in decimal at the end.
\<close>

definition cmdLineText :: "wstring \<Rightarrow> wstring \<Rightarrow> wstring \<Rightarrow> UINT \<Rightarrow> wstring" where
  "cmdLineText cliPath filePath outPath cx =
     [DQUOTE] @ cliPath @ [DQUOTE] @ '' --generate-thumbnail '' @
     [DQUOTE] @ filePath @ [DQUOTE] @ '' '' @
     [DQUOTE] @ outPath @ [DQUOTE] @ '' --size '' @ decimal (unat cx)"

definition cmdLine :: "wstring \<Rightarrow> wstring \<Rightarrow> wstring \<Rightarrow> UINT \<Rightarrow> wstring option" where
  "cmdLine cliPath filePath outPath cx = swprintf_s 2048 (cmdLineText cliPath filePath outPath cx)"

text \<open>
  The part of \<^verbatim>\<open>GenerateThumbnail\<close> under the comment \<^verbatim>\<open>// Execute CLI\<close>, from
  \<^verbatim>\<open>CreateProcessW\<close> to the end of the method. \<^verbatim>\<open>exitCode\<close> starts as 1 and keeps
  that value when \<^verbatim>\<open>GetExitCodeProcess\<close> fails.
\<close>

definition ExecuteCLI :: "World \<Rightarrow> wstring \<Rightarrow> HRESULT \<times> Call list" where
  "ExecuteCLI w cmd =
     (case CreateProcessW w cmd of
        None \<Rightarrow> (E_FAIL, [Call_CreateProcessW cmd])
      | Some pi \<Rightarrow>
          (let waitResult = WaitForSingleObject w (hProcess pi) 5000;
               exitCode = (case GetExitCodeProcess w (hProcess pi) of None \<Rightarrow> 1 | Some c \<Rightarrow> c);
               calls = [Call_CreateProcessW cmd,
                        Call_WaitForSingleObject (hProcess pi) 5000,
                        Call_GetExitCodeProcess (hProcess pi),
                        Call_CloseHandle (hProcess pi),
                        Call_CloseHandle (hThread pi)]
           in if waitResult \<noteq> WAIT_OBJECT_0 \<or> exitCode \<noteq> 0 then (E_FAIL, calls)
              else (S_OK, calls)))"

text \<open>
  The method returns its \<^verbatim>\<open>HRESULT\<close>, the value of the reference parameter
  \<^verbatim>\<open>outPath\<close> at the return (\<open>outPath0\<close> is its value at the call), and the calls it
  made. \<open>None\<close>: the process was ended inside \<^verbatim>\<open>swprintf_s\<close>.
\<close>

definition GenerateThumbnail ::
  "World \<Rightarrow> WireTunerThumbnailProvider \<Rightarrow> UINT \<Rightarrow> wstring \<Rightarrow> (HRESULT \<times> wstring \<times> Call list) option" where
  "GenerateThumbnail w this cx outPath0 =
     (let calls0 = [Call_GetTempPathW, Call_CreateDirectoryW (cacheDir w),
                    Call_GetFileAttributesExW (m_filePath this)]
      in case GetFileAttributesExW w (m_filePath this) of
           None \<Rightarrow> Some (E_FAIL, outPath0, calls0)
         | Some ftLastWriteTime \<Rightarrow>
             (case cacheKey (m_filePath this) (QuadPart ftLastWriteTime) cx of
                None \<Rightarrow> None
              | Some key \<Rightarrow>
                  (let outPath = cacheDir w @ key;
                       calls1 = calls0 @ [Call_PathFileExistsW outPath]
                   in if PathFileExistsW w outPath then Some (S_OK, outPath, calls1)
                      else (let (cliPath, callsF) = FindWireTunerCLI w
                            in if cliPath = [] then Some (E_FAIL, outPath, calls1 @ callsF)
                               else (case cmdLine cliPath (m_filePath this) outPath cx of
                                       None \<Rightarrow> None
                                     | Some cmd \<Rightarrow>
                                         (let (hr, callsE) = ExecuteCLI w cmd
                                          in Some (hr, outPath, calls1 @ callsF @ callsE)))))))"

subsection \<open>\<^verbatim>\<open>GeneratePlaceholder\<close> and \<^verbatim>\<open>GetThumbnail\<close>\<close>

text \<open>
  \<^verbatim>\<open>Bitmap::GetHBITMAP(background, phbmp)\<close> writes a handle through \<^verbatim>\<open>phbmp\<close> when it
  succeeds and leaves \<^verbatim>\<open>*phbmp\<close> as it was when it fails.
\<close>

definition GetHBITMAP :: "World \<Rightarrow> Bitmap \<Rightarrow> Color \<Rightarrow> HBITMAP \<Rightarrow> HBITMAP" where
  "GetHBITMAP w bitmap bg phbmp =
     (if GetHBITMAP_Ok w bitmap then Some (GdiBitmap bitmap bg) else phbmp)"

definition Bitmap_FromFile :: "World \<Rightarrow> wstring \<Rightarrow> Bitmap option" where
  "Bitmap_FromFile w path = map_option (\<lambda>(width, height). FromFile path width height) (ImageFile w path)"

text \<open>
  The bitmap of \<^verbatim>\<open>GeneratePlaceholder\<close> after its two drawing calls. \<^verbatim>\<open>margin\<close> is an
  \<^verbatim>\<open>INT\<close> holding \<^verbatim>\<open>cx / 4\<close>; \<^verbatim>\<open>cx - margin * 2\<close> is computed in \<^verbatim>\<open>UINT\<close> and passed
  as \<^verbatim>\<open>INT\<close>.
\<close>

definition placeholderBitmap :: "UINT \<Rightarrow> Bitmap" where
  "placeholderBitmap cx =
     (let whiteBrush = Color3 255 255 255;
          blueBrush = Color4 255 33 150 243;
          margin = cx div 4
      in Blank32bppARGB cx cx
           [FillRectangle whiteBrush 0 0 cx cx,
            FillEllipse blueBrush margin margin (cx - margin * 2) (cx - margin * 2)])"

definition GeneratePlaceholder ::
  "World \<Rightarrow> WireTunerThumbnailProvider \<Rightarrow> UINT \<Rightarrow> HBITMAP \<Rightarrow> HRESULT \<times> HBITMAP \<times> Call list" where
  "GeneratePlaceholder w this cx phbmp =
     (let bitmap = placeholderBitmap cx;
          bg = Color3 255 255 255;
          phbmp' = GetHBITMAP w bitmap bg phbmp
      in (if phbmp' \<noteq> NULL then S_OK else E_FAIL, phbmp', [Call_GetHBITMAP bitmap]))"

text \<open>
  The method returns its \<^verbatim>\<open>HRESULT\<close>, the values of \<^verbatim>\<open>*phbmp\<close> and \<^verbatim>\<open>*pdwAlpha\<close> at
  the return, and the calls it made.
\<close>

definition GetThumbnail ::
  "World \<Rightarrow> WireTunerThumbnailProvider \<Rightarrow> UINT \<Rightarrow> (HRESULT \<times> HBITMAP \<times> WTS_ALPHATYPE \<times> Call list) option" where
  "GetThumbnail w this cx =
     (let phbmp = NULL;
          pdwAlpha = WTSAT_ARGB
      in case GenerateThumbnail w this cx [] of
           None \<Rightarrow> None
         | Some (hr, thumbnailPath, calls) \<Rightarrow>
             (if FAILED hr
              then (let (hr', phbmp', callsP) = GeneratePlaceholder w this cx phbmp
                    in Some (hr', phbmp', pdwAlpha, calls @ callsP))
              else (case Bitmap_FromFile w thumbnailPath of
                      None \<Rightarrow>
                        (let (hr', phbmp', callsP) = GeneratePlaceholder w this cx phbmp
                         in Some (hr', phbmp', pdwAlpha,
                                  calls @ [Call_Bitmap_FromFile thumbnailPath] @ callsP))
                    | Some bitmap \<Rightarrow>
                        (let bg = Color4 255 255 255 255;
                             phbmp' = GetHBITMAP w bitmap bg phbmp
                         in Some (if phbmp' \<noteq> NULL then S_OK else E_FAIL, phbmp', pdwAlpha,
                                  calls @ [Call_Bitmap_FromFile thumbnailPath,
                                           Call_GetHBITMAP bitmap])))))"

subsection \<open>Internal failures\<close>

text \<open>
  The ways in which producing the thumbnail can fail inside \<^verbatim>\<open>GetThumbnail\<close>, and when each
  occurs in a run. \<open>cacheLocation\<close> is the value of \<^verbatim>\<open>outPath\<close> once the file attributes
  are read and the cache key is formed; \<open>launchCommand\<close> is the command line of a run that
  misses the cache, finds the renderer and forms the command line.
  \<^item> \<open>FileIdentityUnavailable\<close>: \<^verbatim>\<open>GetFileAttributesExW\<close> fails.
  \<^item> \<open>RendererNotFound\<close>: the cache is missed and \<^verbatim>\<open>FindWireTunerCLI\<close> returns the empty string.
  \<^item> \<open>ProcessLaunchFailed\<close>: \<^verbatim>\<open>CreateProcessW\<close> fails.
  \<^item> \<open>ProcessTimedOut\<close>: the wait of 5000 milliseconds does not return \<^verbatim>\<open>WAIT_OBJECT_0\<close>.
  \<^item> \<open>ProcessNonZeroExit\<close>: the exit code read is not 0 (or cannot be read, which leaves 1).
  \<^item> \<open>ImageDecodeFailed\<close>: \<^verbatim>\<open>GenerateThumbnail\<close> returns \<^verbatim>\<open>S_OK\<close> (cache hit or rendered file)
    and \<^verbatim>\<open>Bitmap::FromFile\<close> cannot decode the file.
\<close>

datatype Failure =
    FileIdentityUnavailable
  | RendererNotFound
  | ProcessLaunchFailed
  | ProcessTimedOut
  | ProcessNonZeroExit
  | ImageDecodeFailed

definition cacheLocation :: "World \<Rightarrow> WireTunerThumbnailProvider \<Rightarrow> UINT \<Rightarrow> wstring option" where
  "cacheLocation w this cx =
     (case GetFileAttributesExW w (m_filePath this) of
        None \<Rightarrow> None
      | Some ft \<Rightarrow>
          map_option (\<lambda>key. cacheDir w @ key) (cacheKey (m_filePath this) (QuadPart ft) cx))"

definition launchCommand :: "World \<Rightarrow> WireTunerThumbnailProvider \<Rightarrow> UINT \<Rightarrow> wstring option" where
  "launchCommand w this cx =
     (case cacheLocation w this cx of
        None \<Rightarrow> None
      | Some outPath \<Rightarrow>
          (if PathFileExistsW w outPath \<or> fst (FindWireTunerCLI w) = [] then None
           else cmdLine (fst (FindWireTunerCLI w)) (m_filePath this) outPath cx))"

fun failureOccurs :: "World \<Rightarrow> WireTunerThumbnailProvider \<Rightarrow> UINT \<Rightarrow> Failure \<Rightarrow> bool" where
  "failureOccurs w this cx FileIdentityUnavailable =
     (GetFileAttributesExW w (m_filePath this) = None)"
| "failureOccurs w this cx RendererNotFound =
     (case cacheLocation w this cx of
        None \<Rightarrow> False
      | Some outPath \<Rightarrow> \<not> PathFileExistsW w outPath \<and> fst (FindWireTunerCLI w) = [])"
| "failureOccurs w this cx ProcessLaunchFailed =
     (case launchCommand w this cx of
        None \<Rightarrow> False
      | Some cmd \<Rightarrow> CreateProcessW w cmd = None)"
| "failureOccurs w this cx ProcessTimedOut =
     (case launchCommand w this cx of
        None \<Rightarrow> False
      | Some cmd \<Rightarrow>
          (case CreateProcessW w cmd of
             None \<Rightarrow> False
           | Some pi \<Rightarrow> WaitForSingleObject w (hProcess pi) 5000 \<noteq> WAIT_OBJECT_0))"
| "failureOccurs w this cx ProcessNonZeroExit =
     (case launchCommand w this cx of
        None \<Rightarrow> False
      | Some cmd \<Rightarrow>
          (case CreateProcessW w cmd of
             None \<Rightarrow> False
           | Some pi \<Rightarrow> GetExitCodeProcess w (hProcess pi) \<noteq> Some 0))"
| "failureOccurs w this cx ImageDecodeFailed =
     (case GenerateThumbnail w this cx [] of
        None \<Rightarrow> False
      | Some (hr, outPath, calls) \<Rightarrow> hr = S_OK \<and> ImageFile w outPath = None)"

section \<open>Concrete runs\<close>

text \<open>
  A document \<^verbatim>\<open>draft.wiretuner\<close> in the directory \<^verbatim>\<open>docs\<close> of drive C, whose last
  write time has the 64-bit value 1700000000, asked for at 256 pixels, with the directory
  \<^verbatim>\<open>Temp\<close> of drive C as temporary directory.
\<close>

definition draft_path :: wstring where
  "draft_path = ''C:'' @ [BSLASH] @ ''docs'' @ [BSLASH] @ ''draft.wiretuner''"

definition draft_provider :: WireTunerThumbnailProvider where
  "draft_provider = \<lparr>m_refCount = 1, m_gdiplusToken = 0, m_filePath = draft_path\<rparr>"

definition other_provider :: WireTunerThumbnailProvider where
  "other_provider = \<lparr>m_refCount = 1, m_gdiplusToken = 0, m_filePath = ''D:'' @ [BSLASH] @ ''logo.wiretuner''\<rparr>"

definition draft_cacheDir :: wstring where
  "draft_cacheDir = ''C:'' @ [BSLASH] @ ''Temp'' @ [BSLASH] @ ''wiretuner-thumbnails'' @ [BSLASH]"

definition draft_cache :: wstring where
  "draft_cache = draft_cacheDir @ ''draft.wiretuner-1700000000-256.png''"

text \<open>
  No cache entry, no renderer, no \<^verbatim>\<open>PATH\<close>; the document is readable; GDI+ makes a
  handle from every bitmap that is not empty.
\<close>

definition bare_world :: World where
  "bare_world =
     \<lparr>GetTempPathW = ''C:'' @ [BSLASH] @ ''Temp'' @ [BSLASH],
      GetFileAttributesExW =
        (\<lambda>p. if p = draft_path then Some \<lparr>dwLowDateTime = 1700000000, dwHighDateTime = 0\<rparr>
             else None),
      PathFileExistsW = (\<lambda>p. False),
      GetEnvironmentVariableW = (\<lambda>v. None),
      CreateProcessW = (\<lambda>cmd. None),
      WaitForSingleObject = (\<lambda>h ms. WAIT_TIMEOUT),
      GetExitCodeProcess = (\<lambda>h. None),
      ImageFile = (\<lambda>p. None),
      GetHBITMAP_Ok = (\<lambda>b. GetWidth b \<noteq> 0 \<and> GetHeight b \<noteq> 0)\<rparr>"

text \<open>The cache entry of the document exists and holds an image of 64 by 64 pixels.\<close>

definition cached_world :: World where
  "cached_world = bare_world
     \<lparr>PathFileExistsW := (\<lambda>p. p = draft_cache),
      ImageFile := (\<lambda>p. if p = draft_cache then Some (64, 64) else None)\<rparr>"

text \<open>
  The renderer is installed only in the directory \<^verbatim>\<open>tools\<close> of drive C, the last of
  the two directories of \<^verbatim>\<open>PATH\<close>, after \<^verbatim>\<open>Windows\<close> and a semicolon.
\<close>

definition tools_exe :: wstring where
  "tools_exe = ''C:'' @ [BSLASH] @ ''tools'' @ [BSLASH] @ ''wiretuner.exe''"

definition tools_world :: World where
  "tools_world = bare_world
     \<lparr>PathFileExistsW := (\<lambda>p. p = tools_exe),
      GetEnvironmentVariableW :=
        (\<lambda>v. if v = ''PATH'' then Some (''C:'' @ [BSLASH] @ ''Windows;C:'' @ [BSLASH] @ ''tools'')
             else None)\<rparr>"

text \<open>
  The renderer is installed at the first of the \<^verbatim>\<open>searchPaths\<close>, starts, ends within the wait
  and exits with 0; the file it wrote holds an image of 256 by 256 pixels.
\<close>

definition installed_world :: World where
  "installed_world = bare_world
     \<lparr>PathFileExistsW := (\<lambda>p. p = hd searchPaths),
      CreateProcessW := (\<lambda>cmd. Some \<lparr>hProcess = 1, hThread = 2\<rparr>),
      WaitForSingleObject := (\<lambda>h ms. if h = 1 \<and> ms = 5000 then WAIT_OBJECT_0 else WAIT_TIMEOUT),
      GetExitCodeProcess := (\<lambda>h. Some 0),
      ImageFile := (\<lambda>p. if p = draft_cache then Some (256, 256) else None)\<rparr>"

text \<open>The document cannot be read.\<close>

definition unreadable_world :: World where
  "unreadable_world = bare_world \<lparr>GetFileAttributesExW := (\<lambda>p. None)\<rparr>"

text \<open>GDI+ makes no handle at all.\<close>

definition exhausted_world :: World where
  "exhausted_world = bare_world \<lparr>GetHBITMAP_Ok := (\<lambda>b. False)\<rparr>"

text \<open>The renderer starts and is still running when the wait ends.\<close>

definition hung_world :: World where
  "hung_world = installed_world
     \<lparr>WaitForSingleObject := (\<lambda>h ms. WAIT_TIMEOUT),
      GetExitCodeProcess := (\<lambda>h. Some 259)\<rparr>"

text \<open>The renderer ends within the wait with exit code 1.\<close>

definition crashed_world :: World where
  "crashed_world = installed_world \<lparr>GetExitCodeProcess := (\<lambda>h. Some 1)\<rparr>"

text \<open>The renderer ends with exit code 0, and what it wrote cannot be decoded.\<close>

definition corrupt_world :: World where
  "corrupt_world = installed_world \<lparr>ImageFile := (\<lambda>p. None)\<rparr>"

text \<open>The command line of the renderer for the document, when it is installed at the first path.\<close>

definition draft_cmd :: wstring where
  "draft_cmd =
     [DQUOTE] @ ''C:'' @ [BSLASH] @ ''Program Files'' @ [BSLASH] @ ''WireTuner'' @ [BSLASH] @
     ''wiretuner.exe'' @ [DQUOTE] @ '' --generate-thumbnail '' @
     [DQUOTE] @ draft_path @ [DQUOTE] @ '' '' @ [DQUOTE] @ draft_cache @ [DQUOTE] @ '' --size 256''"

text \<open>The renderer is installed, and starting it fails.\<close>

definition denied_world :: World where
  "denied_world = installed_world \<lparr>CreateProcessW := (\<lambda>cmd. None)\<rparr>"

text \<open>
  The same document with the last write time of 14 November 2023, 22:13:20 UTC: the 64-bit
  value 133444736000000000, with high part 31070023 and low part 3329032192. Its cache entry
  exists.
\<close>

definition stamped_cache :: wstring where
  "stamped_cache = draft_cacheDir @ ''draft.wiretuner-133444736000000000-256.png''"

definition stamped_world :: World where
  "stamped_world = bare_world
     \<lparr>GetFileAttributesExW :=
        (\<lambda>p. if p = draft_path then Some \<lparr>dwLowDateTime = 3329032192, dwHighDateTime = 31070023\<rparr>
             else None),
      PathFileExistsW := (\<lambda>p. p = stamped_cache)\<rparr>"

text \<open>
  The document written again, so that only the high part of its last write time differs;
  the cache entry of the earlier time is still there.
\<close>

definition touched_world :: World where
  "touched_world = stamped_world
     \<lparr>GetFileAttributesExW :=
        (\<lambda>p. if p = draft_path then Some \<lparr>dwLowDateTime = 3329032192, dwHighDateTime = 31070024\<rparr>
             else None)\<rparr>"

section \<open>Auxiliary facts\<close>

subsection \<open>Decimal text\<close>

lemma decimal_numeral [simp]:
  "decimal (numeral k) =
     (if (numeral k :: nat) < 10 then [''0123456789'' ! numeral k]
      else decimal (numeral k div 10) @ [''0123456789'' ! (numeral k mod 10)])"
  by (rule decimal.simps)

lemma decimal_1 [simp]: "decimal 1 = ''1''"
  by (simp add: decimal.simps)

lemma decimal_Suc_0 [simp]: "decimal (Suc 0) = ''1''"
  by (simp add: decimal.simps)

lemma decimal_0 [simp]: "decimal 0 = ''0''"
  by (simp add: decimal.simps)

lemma decimal_not_Nil: "decimal n \<noteq> []"
  by (subst decimal.simps) simp

lemma digit_inj:
  assumes "a < 10" and "b < 10" and "''0123456789'' ! a = ''0123456789'' ! b"
  shows "a = b"
proof -
  have "distinct ''0123456789''" by simp
  moreover have "a < length ''0123456789''" and "b < length ''0123456789''"
    using assms by simp_all
  ultimately show ?thesis
    using assms(3) by (simp only: nth_eq_iff_index_eq)
qed

lemma decimal_inj: "decimal m = decimal n \<Longrightarrow> m = n"
proof (induction m arbitrary: n rule: decimal.induct)
  case (1 m)
  show ?case
  proof (cases "m < 10")
    case True
    then have m: "decimal m = [''0123456789'' ! m]"
      by (simp add: decimal.simps [of m])
    show ?thesis
    proof (cases "n < 10")
      case n: True
      then have "decimal n = [''0123456789'' ! n]"
        by (simp add: decimal.simps [of n])
      with m "1.prems" have "''0123456789'' ! m = ''0123456789'' ! n" by simp
      with True n show ?thesis by (rule digit_inj)
    next
      case False
      then have "decimal n = decimal (n div 10) @ [''0123456789'' ! (n mod 10)]"
        by (simp add: decimal.simps [of n])
      with m "1.prems" have "decimal (n div 10) = []" by simp
      then show ?thesis by (simp add: decimal_not_Nil)
    qed
  next
    case False
    then have m: "decimal m = decimal (m div 10) @ [''0123456789'' ! (m mod 10)]"
      by (simp add: decimal.simps [of m])
    show ?thesis
    proof (cases "n < 10")
      case True
      then have "decimal n = [''0123456789'' ! n]"
        by (simp add: decimal.simps [of n])
      with m "1.prems" have "decimal (m div 10) = []" by simp
      then show ?thesis by (simp add: decimal_not_Nil)
    next
      case n: False
      then have "decimal n = decimal (n div 10) @ [''0123456789'' ! (n mod 10)]"
        by (simp add: decimal.simps [of n])
      with m "1.prems" have eq: "decimal (m div 10) = decimal (n div 10)"
        and d: "''0123456789'' ! (m mod 10) = ''0123456789'' ! (n mod 10)"
        by simp_all
      from "1.IH" [OF False eq] have q: "m div 10 = n div 10" .
      have "m mod 10 = n mod 10"
        by (rule digit_inj [OF _ _ d]) simp_all
      with q show ?thesis
        by (metis div_mult_mod_eq)
    qed
  qed
qed

lemma length_decimal: "n < 10 ^ k \<Longrightarrow> 0 < k \<Longrightarrow> length (decimal n) \<le> k"
proof (induction n arbitrary: k rule: decimal.induct)
  case (1 n)
  show ?case
  proof (cases "n < 10")
    case True
    with "1.prems" show ?thesis by (simp add: decimal.simps [of n])
  next
    case False
    obtain j where k: "k = Suc j" using "1.prems"(2) by (cases k) auto
    have "0 < j"
    proof (rule ccontr)
      assume "\<not> 0 < j"
      with k "1.prems"(1) False show False by simp
    qed
    moreover have "n div 10 < 10 ^ j"
      using "1.prems"(1) k by (simp add: less_mult_imp_div_less)
    ultimately have "length (decimal (n div 10)) \<le> j"
      using "1.IH" [OF False] by simp
    with False k show ?thesis by (simp add: decimal.simps [of n])
  qed
qed

lemma length_decimal_ULONGLONG: "length (decimal (unat (t :: ULONGLONG))) \<le> 20"
proof -
  have "unat t < 2 ^ 64" using unsigned_less [of t] by simp
  then have "unat t < 10 ^ 20" by simp
  then show ?thesis by (rule length_decimal) simp
qed

lemma length_decimal_UINT: "length (decimal (unat (cx :: UINT))) \<le> 10"
proof -
  have "unat cx < 2 ^ 32" using unsigned_less [of cx] by simp
  then have "unat cx < 10 ^ 10" by simp
  then show ?thesis by (rule length_decimal) simp
qed

lemma cacheKey_fits:
  assumes "length (PathFindFileNameW filePath) \<le> 255"
  shows "cacheKey filePath modTime cx = Some (cacheKeyText filePath modTime cx)"
  using assms length_decimal_ULONGLONG [of modTime] length_decimal_UINT [of cx]
  by (simp add: cacheKey_def swprintf_s_def cacheKeyText_def)

lemma cacheKey_Some: "cacheKey filePath modTime cx = Some key \<Longrightarrow> key = cacheKeyText filePath modTime cx"
  by (auto simp: cacheKey_def swprintf_s_def split: if_splits)

subsection \<open>The methods\<close>

lemma GeneratePlaceholder_result:
  "GeneratePlaceholder w this cx NULL =
     (if GetHBITMAP_Ok w (placeholderBitmap cx)
      then (S_OK, Some (GdiBitmap (placeholderBitmap cx) (ARGB 255 255 255 255)),
            [Call_GetHBITMAP (placeholderBitmap cx)])
      else (E_FAIL, NULL, [Call_GetHBITMAP (placeholderBitmap cx)]))"
  by (simp add: GeneratePlaceholder_def GetHBITMAP_def Color3_def Let_def)

lemma ExecuteCLI_S_OK:
  "fst (ExecuteCLI w cmd) = S_OK \<longleftrightarrow>
     (\<exists>pi. CreateProcessW w cmd = Some pi \<and>
           WaitForSingleObject w (hProcess pi) 5000 = WAIT_OBJECT_0 \<and>
           GetExitCodeProcess w (hProcess pi) = Some 0)"
  by (auto simp: ExecuteCLI_def Let_def split: option.splits)

lemma ExecuteCLI_launch_failed:
  "CreateProcessW w cmd = None \<Longrightarrow> ExecuteCLI w cmd = (E_FAIL, [Call_CreateProcessW cmd])"
  by (simp add: ExecuteCLI_def)

lemma checkSearchPaths_calls: "\<forall>c \<in> set (snd (checkSearchPaths w ps)). isProbe c"
  by (induction ps) (auto split: prod.splits)

lemma scanPATH_calls: "\<forall>c \<in> set (snd (scanPATH w path)). isProbe c"
proof (induction w path rule: scanPATH.induct)
  case (1 w path)
  show ?case
  proof (cases "wfind CHR '';'' path")
    case None
    then show ?thesis by (simp add: scanPATH.simps [of w path])
  next
    case (Some pos)
    with 1 show ?thesis
      by (auto simp: scanPATH.simps [of w path] Let_def split: prod.splits)
  qed
qed

lemma checkSearchPaths_callsD:
  "checkSearchPaths w ps = (r, calls) \<Longrightarrow> c \<in> set calls \<Longrightarrow> isProbe c"
  using checkSearchPaths_calls [of w ps] by simp

lemma scanPATH_callsD:
  "scanPATH w path = (r, calls) \<Longrightarrow> c \<in> set calls \<Longrightarrow> isProbe c"
  using scanPATH_calls [of w path] by simp

lemma FindWireTunerCLI_callsD:
  assumes "FindWireTunerCLI w = (cliPath, calls)" and "c \<in> set calls"
  shows "isProbe c"
proof -
  obtain r calls0 where cs: "checkSearchPaths w searchPaths = (r, calls0)"
    by (cases "checkSearchPaths w searchPaths")
  show ?thesis
  proof (cases r)
    case (Some p)
    with assms cs show ?thesis
      by (auto simp: FindWireTunerCLI_def dest: checkSearchPaths_callsD)
  next
    case None
    show ?thesis
    proof (cases "GetEnvironmentVariableW w ''PATH''")
      case N: None
      with assms cs None show ?thesis
        by (auto simp: FindWireTunerCLI_def dest: checkSearchPaths_callsD)
    next
      case (Some pathBuf)
      obtain r' calls' where sp: "scanPATH w pathBuf = (r', calls')"
        by (cases "scanPATH w pathBuf")
      from assms cs None Some sp show ?thesis
        by (auto simp: FindWireTunerCLI_def split: if_splits
                 dest: checkSearchPaths_callsD scanPATH_callsD)
    qed
  qed
qed

lemma GenerateThumbnail_hit:
  assumes "GetFileAttributesExW w (m_filePath this) = Some ft"
    and "cacheKey (m_filePath this) (QuadPart ft) cx = Some key"
    and "PathFileExistsW w (cacheDir w @ key)"
  shows "GenerateThumbnail w this cx outPath0 =
           Some (S_OK, cacheDir w @ key,
                 [Call_GetTempPathW, Call_CreateDirectoryW (cacheDir w),
                  Call_GetFileAttributesExW (m_filePath this),
                  Call_PathFileExistsW (cacheDir w @ key)])"
  using assms by (simp add: GenerateThumbnail_def Let_def)

lemma GenerateThumbnail_launch:
  assumes "GetFileAttributesExW w (m_filePath this) = Some ft"
    and "cacheKey (m_filePath this) (QuadPart ft) cx = Some key"
    and "\<not> PathFileExistsW w (cacheDir w @ key)"
    and "FindWireTunerCLI w = (cliPath, callsF)"
    and "cliPath \<noteq> []"
    and "cmdLine cliPath (m_filePath this) (cacheDir w @ key) cx = Some cmd"
  shows "GenerateThumbnail w this cx outPath0 =
           Some (fst (ExecuteCLI w cmd), cacheDir w @ key,
                 [Call_GetTempPathW, Call_CreateDirectoryW (cacheDir w),
                  Call_GetFileAttributesExW (m_filePath this),
                  Call_PathFileExistsW (cacheDir w @ key)] @ callsF @ snd (ExecuteCLI w cmd))"
  using assms by (simp add: GenerateThumbnail_def Let_def split: prod.splits)

lemma sint_small:
  fixes x :: "32 word"
  assumes "uint x < 2 ^ 31"
  shows "sint x = uint x"
proof -
  have "- (2 ^ 31) \<le> uint x"
    by (rule order_trans [of _ 0]) simp_all
  then have "signed_take_bit 31 (uint x) = uint x"
    using assms by (rule signed_take_bit_int_eq_self)
  then show ?thesis by (simp add: sint_uint)
qed

lemma placeholder_margin: "uint ((cx :: 32 word) div 4) = uint cx div 4"
  by (simp add: uint_div)

lemma placeholder_diameter: "uint ((cx :: 32 word) - cx div 4 * 2) = uint cx - 2 * (uint cx div 4)"
proof -
  have m: "unat (cx div 4) = unat cx div 4"
    by (simp add: unat_div)
  have "unat (cx div 4) * unat (2 :: 32 word) < 2 ^ LENGTH(32)"
    using unsigned_less [of cx, where 'a = nat] m by simp
  then have "unat (cx div 4 * 2) = unat (cx div 4) * unat (2 :: 32 word)"
    by (simp only: unat_mult_lem [THEN iffD1])
  with m have p: "unat (cx div 4 * 2) = 2 * (unat cx div 4)" by simp
  then have "unat (cx div 4 * 2) \<le> unat cx" by simp
  then have "cx div 4 * 2 \<le> cx" by (simp add: word_le_nat_alt)
  then have "unat (cx - cx div 4 * 2) = unat cx - unat (cx div 4 * 2)"
    by (rule unat_sub)
  with p have "unat (cx - cx div 4 * 2) = unat cx - 2 * (unat cx div 4)" by simp
  then have "int (unat (cx - cx div 4 * 2)) = int (unat cx) - 2 * (int (unat cx) div 4)"
    by (simp add: of_nat_diff zdiv_int)
  then show ?thesis by simp
qed

lemma GetThumbnail_fallback:
  assumes "GenerateThumbnail w this cx [] = Some (hr, outPath, calls)"
    and "FAILED hr \<or> ImageFile w outPath = None"
  shows "\<exists>calls'. GetThumbnail w this cx =
           Some (if GetHBITMAP_Ok w (placeholderBitmap cx)
                 then (S_OK, Some (GdiBitmap (placeholderBitmap cx) (ARGB 255 255 255 255)),
                       WTSAT_ARGB, calls')
                 else (E_FAIL, NULL, WTSAT_ARGB, calls'))"
  using assms
  by (auto simp: GetThumbnail_def GeneratePlaceholder_result Bitmap_FromFile_def)

lemma GenerateThumbnail_failure:
  assumes "failureOccurs w this cx failure" and "failure \<noteq> ImageDecodeFailed"
  shows "\<exists>outPath calls. GenerateThumbnail w this cx [] = Some (E_FAIL, outPath, calls)"
proof (cases failure)
  case FileIdentityUnavailable
  with assms show ?thesis
    by (simp add: GenerateThumbnail_def)
next
  case RendererNotFound
  with assms show ?thesis
    by (auto simp: GenerateThumbnail_def cacheLocation_def Let_def
             split: option.splits prod.splits)
next
  case ProcessLaunchFailed
  with assms show ?thesis
    by (auto simp: GenerateThumbnail_def cacheLocation_def launchCommand_def ExecuteCLI_def Let_def
             split: option.splits prod.splits if_splits)
next
  case ProcessTimedOut
  with assms show ?thesis
    by (auto simp: GenerateThumbnail_def cacheLocation_def launchCommand_def ExecuteCLI_def Let_def
             split: option.splits prod.splits if_splits)
next
  case ProcessNonZeroExit
  with assms show ?thesis
    by (auto simp: GenerateThumbnail_def cacheLocation_def launchCommand_def ExecuteCLI_def Let_def
             split: option.splits prod.splits if_splits)
next
  case ImageDecodeFailed
  with assms show ?thesis by simp
qed

text \<open>
  What \<^verbatim>\<open>FindWireTunerCLI\<close> returns: the first existing path among the fixed paths followed
  by the renderer in every directory of \<^verbatim>\<open>PATH\<close> but the last piece of the split (the loop
  ends when no semicolon is left, before looking at what remains).
\<close>

lemma splitOn_not_Nil: "splitOn c s \<noteq> []"
  by (induction s) (auto split: list.splits)

lemma splitOn_wfind_None: "wfind c s = None \<Longrightarrow> splitOn c s = [s]"
  by (induction s) (auto split: if_splits list.splits)

lemma splitOn_wfind_Some:
  "wfind c s = Some pos \<Longrightarrow> splitOn c s = take pos s # splitOn c (drop (pos + 1) s)"
proof (induction s arbitrary: pos)
  case Nil
  then show ?case by simp
next
  case (Cons x xs)
  show ?case
  proof (cases "x = c")
    case True
    with Cons.prems show ?thesis by simp
  next
    case False
    with Cons.prems obtain n where n: "wfind c xs = Some n" and pos: "pos = Suc n"
      by auto
    from Cons.IH [OF n] False pos show ?thesis by simp
  qed
qed

lemma scanPATH_firstExisting:
  "fst (scanPATH w path) = firstExisting w (map exeIn (butlast (splitOn CHR '';'' path)))"
proof (induction w path rule: scanPATH.induct)
  case (1 w path)
  show ?case
  proof (cases "wfind CHR '';'' path")
    case None
    then show ?thesis
      by (simp add: scanPATH.simps [of w path] splitOn_wfind_None firstExisting_def)
  next
    case (Some pos)
    let ?rest = "drop (pos + 1) path"
    have split: "butlast (splitOn CHR '';'' path) = take pos path # butlast (splitOn CHR '';'' ?rest)"
      using splitOn_wfind_Some [OF Some] by (simp add: splitOn_not_Nil)
    show ?thesis
    proof (cases "PathFileExistsW w (take pos path @ [BSLASH] @ ''wiretuner.exe'')")
      case True
      with Some split show ?thesis
        unfolding exeIn_def firstExisting_def
        by (simp add: scanPATH.simps [of w path] Let_def)
    next
      case False
      obtain r calls where rest: "scanPATH w ?rest = (r, calls)"
        by (cases "scanPATH w ?rest")
      with "1.IH" [OF Some refl refl False]
      have "r = firstExisting w (map exeIn (butlast (splitOn CHR '';'' ?rest)))"
        by simp
      with rest Some False split show ?thesis
        unfolding exeIn_def firstExisting_def
        by (simp add: scanPATH.simps [of w path] Let_def)
    qed
  qed
qed

lemma find_append:
  "List.find P (xs @ ys) = (case List.find P xs of None \<Rightarrow> List.find P ys | Some x \<Rightarrow> Some x)"
  by (induction xs) simp_all

lemma checkSearchPaths_find: "fst (checkSearchPaths w ps) = List.find (PathFileExistsW w) ps"
  by (induction ps) (auto split: prod.splits)

lemma FindWireTunerCLI_firstExisting:
  "fst (FindWireTunerCLI w) =
     firstExisting w
       (searchPaths @
        (case GetEnvironmentVariableW w ''PATH'' of
           None \<Rightarrow> []
         | Some path \<Rightarrow> map exeIn (butlast (splitOn CHR '';'' path))))"
proof -
  obtain r calls where cs: "checkSearchPaths w searchPaths = (r, calls)"
    by (cases "checkSearchPaths w searchPaths")
  with checkSearchPaths_find [of w searchPaths]
  have r: "List.find (PathFileExistsW w) searchPaths = r" by simp
  show ?thesis
  proof (cases r)
    case (Some p)
    with cs r show ?thesis
      by (simp add: FindWireTunerCLI_def firstExisting_def find_append)
  next
    case None
    show ?thesis
    proof (cases "GetEnvironmentVariableW w ''PATH''")
      case N: None
      with cs r None show ?thesis
        by (simp add: FindWireTunerCLI_def firstExisting_def find_append)
    next
      case (Some path)
      show ?thesis
      proof (cases "path = []")
        case True
        with cs r None Some show ?thesis
          by (simp add: FindWireTunerCLI_def firstExisting_def find_append)
      next
        case False
        obtain r' calls' where sp: "scanPATH w path = (r', calls')"
          by (cases "scanPATH w path")
        with scanPATH_firstExisting [of w path]
        have "r' = firstExisting w (map exeIn (butlast (splitOn CHR '';'' path)))"
          by simp
        with cs r None Some False sp show ?thesis
          by (simp add: FindWireTunerCLI_def firstExisting_def find_append)
      qed
    qed
  qed
qed

text \<open>
  \<^verbatim>\<open>GetThumbnail\<close> returns whenever the paths have the lengths Windows allows: a temporary
  directory of at most 261 characters, a file path and every existing path of at most 260,
  a file name of at most 255. Both \<^verbatim>\<open>swprintf_s\<close> buffers are then large enough.
\<close>

lemma checkSearchPaths_exists:
  "checkSearchPaths w ps = (Some p, calls) \<Longrightarrow> PathFileExistsW w p"
  by (induction ps arbitrary: calls) (auto split: if_splits prod.splits)

lemma scanPATH_exists:
  "scanPATH w path = (exePath, calls) \<Longrightarrow> exePath \<noteq> [] \<Longrightarrow> PathFileExistsW w exePath"
proof (induction w path arbitrary: calls rule: scanPATH.induct)
  case (1 w path)
  show ?case
  proof (cases "wfind CHR '';'' path")
    case None
    with "1.prems" show ?thesis by (simp add: scanPATH.simps [of w path])
  next
    case (Some pos)
    show ?thesis
    proof (cases "PathFileExistsW w (take pos path @ [BSLASH] @ ''wiretuner.exe'')")
      case True
      with Some "1.prems" show ?thesis
        by (simp add: scanPATH.simps [of w path] Let_def)
    next
      case False
      obtain r calls' where rest: "scanPATH w (drop (pos + 1) path) = (r, calls')"
        by (cases "scanPATH w (drop (pos + 1) path)")
      with Some False "1.prems" have "r = exePath"
        by (simp add: scanPATH.simps [of w path] Let_def)
      with rest have "scanPATH w (drop (pos + 1) path) = (exePath, calls')" by simp
      from "1.IH" [OF Some refl refl False this "1.prems"(2)] show ?thesis .
    qed
  qed
qed

lemma FindWireTunerCLI_exists:
  assumes "FindWireTunerCLI w = (cliPath, calls)" and "cliPath \<noteq> []"
  shows "PathFileExistsW w cliPath"
proof -
  obtain r calls0 where cs: "checkSearchPaths w searchPaths = (r, calls0)"
    by (cases "checkSearchPaths w searchPaths")
  show ?thesis
  proof (cases r)
    case (Some p)
    with assms cs have "cliPath = p" by (simp add: FindWireTunerCLI_def)
    with cs Some show ?thesis by (simp add: checkSearchPaths_exists)
  next
    case None
    show ?thesis
    proof (cases "GetEnvironmentVariableW w ''PATH''")
      case N: None
      with assms cs None show ?thesis by (simp add: FindWireTunerCLI_def)
    next
      case (Some pathBuf)
      obtain r' calls' where sp: "scanPATH w pathBuf = (r', calls')"
        by (cases "scanPATH w pathBuf")
      with assms cs None Some have "r' = cliPath"
        by (auto simp: FindWireTunerCLI_def split: if_splits)
      with sp assms(2) show ?thesis by (simp add: scanPATH_exists)
    qed
  qed
qed

lemma cmdLine_fits:
  assumes "length cliPath \<le> 260" and "length filePath \<le> 260" and "length outPath \<le> 573"
  shows "cmdLine cliPath filePath outPath cx = Some (cmdLineText cliPath filePath outPath cx)"
  using assms length_decimal_UINT [of cx]
  by (simp add: cmdLine_def swprintf_s_def cmdLineText_def)

lemma GenerateThumbnail_returns:
  assumes "length (GetTempPathW w) \<le> 261"
    and "length (m_filePath this) \<le> 260"
    and "length (PathFindFileNameW (m_filePath this)) \<le> 255"
    and "\<forall>p. PathFileExistsW w p \<longrightarrow> length p \<le> 260"
  shows "GenerateThumbnail w this cx outPath0 \<noteq> None"
proof (cases "GetFileAttributesExW w (m_filePath this)")
  case None
  then show ?thesis by (simp add: GenerateThumbnail_def)
next
  case (Some ft)
  let ?key = "cacheKeyText (m_filePath this) (QuadPart ft) cx"
  have key: "cacheKey (m_filePath this) (QuadPart ft) cx = Some ?key"
    using assms(3) by (rule cacheKey_fits)
  have "length ?key \<le> 291"
    using assms(3) length_decimal_ULONGLONG [of "QuadPart ft"] length_decimal_UINT [of cx]
    by (simp add: cacheKeyText_def)
  with assms(1) have out: "length (cacheDir w @ ?key) \<le> 573"
    by (simp add: cacheDir_def)
  obtain cliPath callsF where cli: "FindWireTunerCLI w = (cliPath, callsF)"
    by (cases "FindWireTunerCLI w")
  show ?thesis
  proof (cases "PathFileExistsW w (cacheDir w @ ?key) \<or> cliPath = []")
    case True
    with Some key cli show ?thesis
      by (auto simp: GenerateThumbnail_def Let_def)
  next
    case False
    with cli have "PathFileExistsW w cliPath" by (simp add: FindWireTunerCLI_exists)
    with assms(4) have "length cliPath \<le> 260" by simp
    from cmdLine_fits [OF this assms(2) out, of cx] False Some key cli show ?thesis
      by (simp add: GenerateThumbnail_def Let_def split: prod.splits)
  qed
qed

lemma GetThumbnail_returns:
  assumes "length (GetTempPathW w) \<le> 261"
    and "length (m_filePath this) \<le> 260"
    and "length (PathFindFileNameW (m_filePath this)) \<le> 255"
    and "\<forall>p. PathFileExistsW w p \<longrightarrow> length p \<le> 260"
  shows "GetThumbnail w this cx \<noteq> None"
  using GenerateThumbnail_returns [OF assms, of cx "[]"]
  by (auto simp: GetThumbnail_def Let_def split: option.splits prod.splits)

text \<open>
  The 64-bit value of a file time is its high part times \<open>2 ^ 32\<close> plus its low part, and
  determines both parts. The key text determines the time and the size: a decimal text has
  no dash in it.
\<close>

lemma uint_QuadPart:
  "uint (QuadPart ft) = uint (dwHighDateTime ft) * 2 ^ 32 + uint (dwLowDateTime ft)"
proof -
  let ?h = "uint (dwHighDateTime ft)" and ?l = "uint (dwLowDateTime ft)"
  have h: "0 \<le> ?h" "?h < 2 ^ 32" and l: "0 \<le> ?l" "?l < 2 ^ 32"
    using uint_lt2p [of "dwHighDateTime ft"] uint_lt2p [of "dwLowDateTime ft"] by simp_all
  have lo: "uint (ucast (dwLowDateTime ft) :: 64 word) = ?l"
    using l by (simp add: unsigned_ucast_eq take_bit_int_eq_self)
  have "push_bit 32 ?h < 2 ^ 64"
    using h by (simp add: push_bit_eq_mult)
  moreover have "0 \<le> push_bit 32 ?h"
    using h by (simp add: push_bit_eq_mult)
  ultimately have hi: "uint (push_bit 32 (ucast (dwHighDateTime ft) :: 64 word)) = push_bit 32 ?h"
    using h by (simp add: unsigned_push_bit_eq unsigned_ucast_eq take_bit_int_eq_self)
  have "take_bit 32 ?l = ?l"
    using l by (simp add: take_bit_int_eq_self)
  then have "push_bit 32 ?h OR ?l = concat_bit 32 ?l ?h"
    by (simp add: concat_bit_def or.commute)
  also have "\<dots> = ?l + ?h * 2 ^ 32"
    using l by (simp add: concat_bit_eq take_bit_int_eq_self push_bit_eq_mult)
  finally show ?thesis
    by (simp add: QuadPart_def unsigned_or_eq hi lo)
qed

lemma unat_QuadPart:
  "unat (QuadPart ft) = unat (dwHighDateTime ft) * 2 ^ 32 + unat (dwLowDateTime ft)"
proof -
  have "int (unat (QuadPart ft)) = int (unat (dwHighDateTime ft) * 2 ^ 32 + unat (dwLowDateTime ft))"
    using uint_QuadPart [of ft] by simp
  then show ?thesis by (simp only: of_nat_eq_iff)
qed

lemma QuadPart_inj:
  fixes ft ft' :: FILETIME
  assumes "QuadPart ft' = QuadPart ft"
  shows "ft' = ft"
proof -
  let ?h = "unat (dwHighDateTime ft)" and ?l = "unat (dwLowDateTime ft)"
  let ?h' = "unat (dwHighDateTime ft')" and ?l' = "unat (dwLowDateTime ft')"
  have l: "?l < 2 ^ 32" and l': "?l' < 2 ^ 32"
    using unsigned_less [of "dwLowDateTime ft", where 'a = nat]
      unsigned_less [of "dwLowDateTime ft'", where 'a = nat] by simp_all
  from assms have "unat (QuadPart ft') = unat (QuadPart ft)" by simp
  then have eq: "?h' * 2 ^ 32 + ?l' = ?h * 2 ^ 32 + ?l"
    by (simp only: unat_QuadPart)
  then have "(?h' * 2 ^ 32 + ?l') div 2 ^ 32 = (?h * 2 ^ 32 + ?l) div 2 ^ 32" by simp
  with l l' have hh: "?h' = ?h" by simp
  with eq have ll: "?l' = ?l" by simp
  from hh ll have "dwHighDateTime ft' = dwHighDateTime ft" and "dwLowDateTime ft' = dwLowDateTime ft"
    by (simp_all add: word_unat_eq_iff)
  then show ?thesis by simp
qed

lemma decimal_digits: "set (decimal n) \<subseteq> set ''0123456789''"
proof (induction n rule: decimal.induct)
  case (1 n)
  have digit: "''0123456789'' ! d \<in> set ''0123456789''" if "d < 10" for d :: nat
    using that by (intro nth_mem) simp
  show ?case
  proof (cases "n < 10")
    case True
    with digit [of n] show ?thesis
      by (simp add: decimal.simps [of n])
  next
    case False
    have "n mod 10 < 10" by simp
    from digit [OF this] "1.IH" [OF False] False show ?thesis
      by (simp add: decimal.simps [of n])
  qed
qed

lemma dash_not_in_decimal: "CHR ''-'' \<notin> set (decimal n)"
  using decimal_digits [of n] by auto

lemma split_at_separator:
  "c \<notin> set xs \<Longrightarrow> c \<notin> set xs' \<Longrightarrow> xs @ c # ys = xs' @ c # ys' \<Longrightarrow>
     xs = xs' \<and> ys = ys'"
proof (induction xs arbitrary: xs')
  case Nil
  then show ?case by (cases xs') auto
next
  case (Cons x xs)
  then show ?case by (cases xs') auto
qed

lemma cacheKeyText_inj:
  assumes "cacheKeyText filePath t' n' = cacheKeyText filePath t n"
  shows "t' = t \<and> n' = n"
proof -
  from assms have "decimal (unat t') @ CHR ''-'' # (decimal (unat n') @ ''.png'') =
                   decimal (unat t) @ CHR ''-'' # (decimal (unat n) @ ''.png'')"
    by (simp add: cacheKeyText_def)
  from split_at_separator [OF dash_not_in_decimal dash_not_in_decimal this]
  have "decimal (unat t') = decimal (unat t)" and "decimal (unat n') = decimal (unat n)"
    by simp_all
  then have "unat t' = unat t" and "unat n' = unat n"
    by (auto dest: decimal_inj)
  then show ?thesis by (simp add: word_unat_eq_iff)
qed

lemma FindWireTunerCLI_probes_first:
  "Call_PathFileExistsW (hd searchPaths) \<in> set (snd (FindWireTunerCLI w))"
  by (auto simp: FindWireTunerCLI_def searchPaths_def Let_def split: prod.splits option.splits)

lemma GenerateThumbnail_miss_probes:
  assumes "GetFileAttributesExW w (m_filePath this) = Some ft"
    and "GenerateThumbnail w this cx outPath0 = Some (hr, outPath, calls)"
    and "\<not> PathFileExistsW w outPath"
  shows "Call_PathFileExistsW (hd searchPaths) \<in> set calls"
proof -
  obtain cliPath callsF where cli: "FindWireTunerCLI w = (cliPath, callsF)"
    by (cases "FindWireTunerCLI w")
  with FindWireTunerCLI_probes_first [of w]
  have "Call_PathFileExistsW (hd searchPaths) \<in> set callsF" by simp
  with assms cli show ?thesis
    by (auto simp: GenerateThumbnail_def Let_def split: option.splits if_splits prod.splits)
qed

lemma GenerateThumbnail_outPath:
  assumes "GetFileAttributesExW w (m_filePath this) = Some ft"
    and "GenerateThumbnail w this cx outPath0 = Some (hr, outPath, calls)"
  shows "outPath = cacheDir w @ cacheKeyText (m_filePath this) (QuadPart ft) cx \<and>
         cacheKey (m_filePath this) (QuadPart ft) cx =
           Some (cacheKeyText (m_filePath this) (QuadPart ft) cx)"
  using assms
  by (auto simp: GenerateThumbnail_def Let_def dest: cacheKey_Some
           split: if_splits prod.splits option.splits)

subsection \<open>Evaluating the concrete runs\<close>

lemmas world_defs = bare_world_def cached_world_def tools_world_def installed_world_def
  unreadable_world_def exhausted_world_def draft_provider_def other_provider_def
  draft_path_def draft_cache_def draft_cacheDir_def tools_exe_def BSLASH_def DQUOTE_def

lemmas code_defs = GenerateThumbnail_def cacheDir_def QuadPart_def cacheKey_def cacheKeyText_def
  swprintf_s_def PathFindFileNameW_def Let_def

lemma cacheKey_draft:
  "cacheKey draft_path 1700000000 256 = Some ''draft.wiretuner-1700000000-256.png''"
  by (simp add: code_defs world_defs)

lemma GenerateThumbnail_cached:
  "GenerateThumbnail cached_world draft_provider 256 [] =
     Some (S_OK, draft_cache,
           [Call_GetTempPathW, Call_CreateDirectoryW draft_cacheDir,
            Call_GetFileAttributesExW draft_path, Call_PathFileExistsW draft_cache])"
  by (simp add: code_defs world_defs)

lemma GetThumbnail_cached:
  "GetThumbnail cached_world draft_provider 256 =
     Some (S_OK, Some (GdiBitmap (FromFile draft_cache 64 64) (ARGB 255 255 255 255)), WTSAT_ARGB,
           [Call_GetTempPathW, Call_CreateDirectoryW draft_cacheDir,
            Call_GetFileAttributesExW draft_path, Call_PathFileExistsW draft_cache,
            Call_Bitmap_FromFile draft_cache, Call_GetHBITMAP (FromFile draft_cache 64 64)])"
  by (simp only: GetThumbnail_def GenerateThumbnail_cached)
     (simp add: Bitmap_FromFile_def GetHBITMAP_def Color4_def Let_def cached_world_def bare_world_def)

lemma GenerateThumbnail_unreadable:
  "GenerateThumbnail unreadable_world draft_provider cx [] =
     Some (E_FAIL, [],
           [Call_GetTempPathW, Call_CreateDirectoryW draft_cacheDir,
            Call_GetFileAttributesExW draft_path])"
  by (simp add: code_defs world_defs)

lemma placeholderBitmap_0:
  "placeholderBitmap 0 =
     Blank32bppARGB 0 0
       [FillRectangle (ARGB 255 255 255 255) 0 0 0 0, FillEllipse (ARGB 255 33 150 243) 0 0 0 0]"
  by (simp add: placeholderBitmap_def Color3_def Color4_def)

lemma GetThumbnail_unreadable_0:
  "GetThumbnail unreadable_world draft_provider 0 =
     Some (E_FAIL, NULL, WTSAT_ARGB,
           [Call_GetTempPathW, Call_CreateDirectoryW draft_cacheDir,
            Call_GetFileAttributesExW draft_path, Call_GetHBITMAP (placeholderBitmap 0)])"
  by (simp only: GetThumbnail_def GenerateThumbnail_unreadable)
     (simp add: GeneratePlaceholder_result placeholderBitmap_0 Let_def unreadable_world_def
        bare_world_def)

lemma placeholderBitmap_256:
  "placeholderBitmap 256 =
     Blank32bppARGB 256 256
       [FillRectangle (ARGB 255 255 255 255) 0 0 256 256,
        FillEllipse (ARGB 255 33 150 243) 64 64 128 128]"
  by (simp add: placeholderBitmap_def Color3_def Color4_def)

lemma FindWireTunerCLI_installed:
  "FindWireTunerCLI installed_world = (hd searchPaths, [Call_PathFileExistsW (hd searchPaths)])"
  by (simp add: FindWireTunerCLI_def searchPaths_def installed_world_def bare_world_def)

lemma FindWireTunerCLI_denied:
  "FindWireTunerCLI denied_world = (hd searchPaths, [Call_PathFileExistsW (hd searchPaths)])"
  by (simp add: FindWireTunerCLI_def searchPaths_def denied_world_def installed_world_def
        bare_world_def)

lemma cmdLine_draft: "cmdLine (hd searchPaths) draft_path draft_cache 256 = Some draft_cmd"
  by (simp add: cmdLine_def cmdLineText_def swprintf_s_def searchPaths_def draft_cmd_def
        world_defs)

lemma cacheLocation_draft:
  assumes "GetTempPathW w = ''C:'' @ [BSLASH] @ ''Temp'' @ [BSLASH]"
    and "GetFileAttributesExW w draft_path = Some \<lparr>dwLowDateTime = 1700000000, dwHighDateTime = 0\<rparr>"
  shows "cacheLocation w draft_provider 256 = Some draft_cache"
proof -
  have "QuadPart \<lparr>dwLowDateTime = 1700000000, dwHighDateTime = 0\<rparr> = 1700000000"
    by (simp add: QuadPart_def)
  with assms cacheKey_draft show ?thesis
    by (simp add: cacheLocation_def cacheDir_def draft_provider_def draft_cache_def
          draft_cacheDir_def)
qed

lemma FindWireTunerCLI_first:
  "PathFileExistsW w (hd searchPaths) \<Longrightarrow>
     FindWireTunerCLI w = (hd searchPaths, [Call_PathFileExistsW (hd searchPaths)])"
  by (simp add: FindWireTunerCLI_def searchPaths_def)

lemma launchCommand_draft:
  assumes "cacheLocation w draft_provider 256 = Some draft_cache"
    and "\<not> PathFileExistsW w draft_cache"
    and "PathFileExistsW w (hd searchPaths)"
  shows "launchCommand w draft_provider 256 = Some draft_cmd"
proof -
  have "hd searchPaths \<noteq> []" by (simp add: searchPaths_def)
  with assms cmdLine_draft show ?thesis
    by (simp add: launchCommand_def FindWireTunerCLI_first draft_provider_def)
qed

lemma not_cached_installed: "draft_cache \<noteq> hd searchPaths"
  by (simp add: searchPaths_def world_defs)

lemma GenerateThumbnail_draft_launch:
  assumes "cacheLocation w draft_provider 256 = Some draft_cache"
    and "\<not> PathFileExistsW w draft_cache"
    and "PathFileExistsW w (hd searchPaths)"
  shows "GenerateThumbnail w draft_provider 256 [] =
           Some (fst (ExecuteCLI w draft_cmd), draft_cache,
                 [Call_GetTempPathW, Call_CreateDirectoryW (cacheDir w),
                  Call_GetFileAttributesExW draft_path, Call_PathFileExistsW draft_cache,
                  Call_PathFileExistsW (hd searchPaths)] @ snd (ExecuteCLI w draft_cmd))"
proof -
  have "hd searchPaths \<noteq> []" by (simp add: searchPaths_def)
  with assms cmdLine_draft show ?thesis
    by (auto simp: GenerateThumbnail_def cacheLocation_def FindWireTunerCLI_first
          draft_provider_def Let_def split: option.splits prod.splits)
qed

lemma ExecuteCLI_installed:
  "ExecuteCLI installed_world draft_cmd =
     (S_OK, [Call_CreateProcessW draft_cmd, Call_WaitForSingleObject 1 5000,
             Call_GetExitCodeProcess 1, Call_CloseHandle 1, Call_CloseHandle 2])"
  by (simp add: ExecuteCLI_def installed_world_def bare_world_def)

lemma ExecuteCLI_corrupt:
  "ExecuteCLI corrupt_world draft_cmd =
     (S_OK, [Call_CreateProcessW draft_cmd, Call_WaitForSingleObject 1 5000,
             Call_GetExitCodeProcess 1, Call_CloseHandle 1, Call_CloseHandle 2])"
  by (simp add: ExecuteCLI_def corrupt_world_def installed_world_def bare_world_def)

lemma cacheLocation_bare: "cacheLocation bare_world draft_provider 256 = Some draft_cache"
  by (rule cacheLocation_draft) (simp_all add: bare_world_def)

lemma cacheLocation_exhausted: "cacheLocation exhausted_world draft_provider 256 = Some draft_cache"
  by (rule cacheLocation_draft) (simp_all add: exhausted_world_def bare_world_def)

lemma cacheLocation_installed: "cacheLocation installed_world draft_provider 256 = Some draft_cache"
  by (rule cacheLocation_draft) (simp_all add: installed_world_def bare_world_def)

lemma cacheLocation_denied: "cacheLocation denied_world draft_provider 256 = Some draft_cache"
  by (rule cacheLocation_draft) (simp_all add: denied_world_def installed_world_def bare_world_def)

lemma cacheLocation_hung: "cacheLocation hung_world draft_provider 256 = Some draft_cache"
  by (rule cacheLocation_draft) (simp_all add: hung_world_def installed_world_def bare_world_def)

lemma cacheLocation_crashed: "cacheLocation crashed_world draft_provider 256 = Some draft_cache"
  by (rule cacheLocation_draft) (simp_all add: crashed_world_def installed_world_def bare_world_def)

lemma cacheLocation_corrupt: "cacheLocation corrupt_world draft_provider 256 = Some draft_cache"
  by (rule cacheLocation_draft) (simp_all add: corrupt_world_def installed_world_def bare_world_def)

lemma FindWireTunerCLI_bare:
  "FindWireTunerCLI bare_world =
     ([], [Call_PathFileExistsW (searchPaths ! 0), Call_PathFileExistsW (searchPaths ! 1),
           Call_GetEnvironmentVariableW ''PATH''])"
  by (simp add: FindWireTunerCLI_def searchPaths_def bare_world_def)

lemma FindWireTunerCLI_exhausted:
  "FindWireTunerCLI exhausted_world =
     ([], [Call_PathFileExistsW (searchPaths ! 0), Call_PathFileExistsW (searchPaths ! 1),
           Call_GetEnvironmentVariableW ''PATH''])"
  by (simp add: FindWireTunerCLI_def searchPaths_def exhausted_world_def bare_world_def)

lemma failure_unreadable: "failureOccurs unreadable_world draft_provider 256 FileIdentityUnavailable"
  by (simp add: unreadable_world_def)

lemma failure_bare: "failureOccurs bare_world draft_provider 256 RendererNotFound"
  by (simp add: cacheLocation_bare FindWireTunerCLI_bare) (simp add: bare_world_def)

lemma failure_denied: "failureOccurs denied_world draft_provider 256 ProcessLaunchFailed"
proof -
  have "launchCommand denied_world draft_provider 256 = Some draft_cmd"
    using not_cached_installed
    by (intro launchCommand_draft cacheLocation_denied)
       (simp_all add: denied_world_def installed_world_def)
  then show ?thesis by (simp add: denied_world_def)
qed

lemma failure_hung: "failureOccurs hung_world draft_provider 256 ProcessTimedOut"
proof -
  have "launchCommand hung_world draft_provider 256 = Some draft_cmd"
    using not_cached_installed
    by (intro launchCommand_draft cacheLocation_hung)
       (simp_all add: hung_world_def installed_world_def)
  then show ?thesis
    by (simp add: hung_world_def installed_world_def WAIT_TIMEOUT_def WAIT_OBJECT_0_def)
qed

lemma failure_crashed: "failureOccurs crashed_world draft_provider 256 ProcessNonZeroExit"
proof -
  have "launchCommand crashed_world draft_provider 256 = Some draft_cmd"
    using not_cached_installed
    by (intro launchCommand_draft cacheLocation_crashed)
       (simp_all add: crashed_world_def installed_world_def)
  then show ?thesis
    by (simp add: crashed_world_def installed_world_def)
qed

lemma GenerateThumbnail_installed:
  "GenerateThumbnail installed_world draft_provider 256 [] =
     Some (S_OK, draft_cache,
           [Call_GetTempPathW, Call_CreateDirectoryW draft_cacheDir,
            Call_GetFileAttributesExW draft_path, Call_PathFileExistsW draft_cache,
            Call_PathFileExistsW (hd searchPaths), Call_CreateProcessW draft_cmd,
            Call_WaitForSingleObject 1 5000, Call_GetExitCodeProcess 1, Call_CloseHandle 1,
            Call_CloseHandle 2])"
proof -
  have "GenerateThumbnail installed_world draft_provider 256 [] =
           Some (fst (ExecuteCLI installed_world draft_cmd), draft_cache,
                 [Call_GetTempPathW, Call_CreateDirectoryW (cacheDir installed_world),
                  Call_GetFileAttributesExW draft_path, Call_PathFileExistsW draft_cache,
                  Call_PathFileExistsW (hd searchPaths)] @ snd (ExecuteCLI installed_world draft_cmd))"
    using not_cached_installed
    by (intro GenerateThumbnail_draft_launch cacheLocation_installed)
       (simp_all add: installed_world_def)
  then show ?thesis
    by (simp only: ExecuteCLI_installed fst_conv snd_conv)
       (simp add: cacheDir_def draft_cacheDir_def installed_world_def bare_world_def)
qed

lemma GenerateThumbnail_corrupt:
  "GenerateThumbnail corrupt_world draft_provider 256 [] =
     Some (S_OK, draft_cache,
           [Call_GetTempPathW, Call_CreateDirectoryW draft_cacheDir,
            Call_GetFileAttributesExW draft_path, Call_PathFileExistsW draft_cache,
            Call_PathFileExistsW (hd searchPaths), Call_CreateProcessW draft_cmd,
            Call_WaitForSingleObject 1 5000, Call_GetExitCodeProcess 1, Call_CloseHandle 1,
            Call_CloseHandle 2])"
proof -
  have "GenerateThumbnail corrupt_world draft_provider 256 [] =
           Some (fst (ExecuteCLI corrupt_world draft_cmd), draft_cache,
                 [Call_GetTempPathW, Call_CreateDirectoryW (cacheDir corrupt_world),
                  Call_GetFileAttributesExW draft_path, Call_PathFileExistsW draft_cache,
                  Call_PathFileExistsW (hd searchPaths)] @ snd (ExecuteCLI corrupt_world draft_cmd))"
    using not_cached_installed
    by (intro GenerateThumbnail_draft_launch cacheLocation_corrupt)
       (simp_all add: corrupt_world_def installed_world_def)
  then show ?thesis
    by (simp only: ExecuteCLI_corrupt fst_conv snd_conv)
       (simp add: cacheDir_def draft_cacheDir_def corrupt_world_def installed_world_def
          bare_world_def)
qed

lemma failure_corrupt: "failureOccurs corrupt_world draft_provider 256 ImageDecodeFailed"
  by (simp add: GenerateThumbnail_corrupt) (simp add: corrupt_world_def)

lemma GetHBITMAP_Ok_256:
  "GetHBITMAP_Ok unreadable_world (placeholderBitmap 256)"
  "GetHBITMAP_Ok bare_world (placeholderBitmap 256)"
  "GetHBITMAP_Ok denied_world (placeholderBitmap 256)"
  "GetHBITMAP_Ok hung_world (placeholderBitmap 256)"
  "GetHBITMAP_Ok crashed_world (placeholderBitmap 256)"
  "GetHBITMAP_Ok corrupt_world (placeholderBitmap 256)"
  by (simp_all add: placeholderBitmap_256 unreadable_world_def bare_world_def denied_world_def
        hung_world_def crashed_world_def corrupt_world_def installed_world_def)

lemma GenerateThumbnail_draft_notfound:
  assumes "cacheLocation w draft_provider 256 = Some draft_cache"
    and "\<not> PathFileExistsW w draft_cache"
    and "FindWireTunerCLI w = ([], callsF)"
  shows "GenerateThumbnail w draft_provider 256 [] =
           Some (E_FAIL, draft_cache,
                 [Call_GetTempPathW, Call_CreateDirectoryW (cacheDir w),
                  Call_GetFileAttributesExW draft_path, Call_PathFileExistsW draft_cache] @ callsF)"
  using assms
  by (auto simp: GenerateThumbnail_def cacheLocation_def draft_provider_def Let_def
           split: option.splits)

lemma GenerateThumbnail_exhausted:
  "GenerateThumbnail exhausted_world draft_provider 256 [] =
     Some (E_FAIL, draft_cache,
           [Call_GetTempPathW, Call_CreateDirectoryW draft_cacheDir,
            Call_GetFileAttributesExW draft_path, Call_PathFileExistsW draft_cache,
            Call_PathFileExistsW (searchPaths ! 0), Call_PathFileExistsW (searchPaths ! 1),
            Call_GetEnvironmentVariableW ''PATH''])"
proof -
  have "\<not> PathFileExistsW exhausted_world draft_cache"
    by (simp add: exhausted_world_def bare_world_def)
  from GenerateThumbnail_draft_notfound [OF cacheLocation_exhausted this FindWireTunerCLI_exhausted]
  show ?thesis
    by (simp add: cacheDir_def draft_cacheDir_def exhausted_world_def bare_world_def)
qed

lemma GenerateThumbnail_bare:
  "GenerateThumbnail bare_world draft_provider 256 [] =
     Some (E_FAIL, draft_cache,
           [Call_GetTempPathW, Call_CreateDirectoryW draft_cacheDir,
            Call_GetFileAttributesExW draft_path, Call_PathFileExistsW draft_cache,
            Call_PathFileExistsW (searchPaths ! 0), Call_PathFileExistsW (searchPaths ! 1),
            Call_GetEnvironmentVariableW ''PATH''])"
proof -
  have "\<not> PathFileExistsW bare_world draft_cache"
    by (simp add: bare_world_def)
  from GenerateThumbnail_draft_notfound [OF cacheLocation_bare this FindWireTunerCLI_bare]
  show ?thesis
    by (simp add: cacheDir_def draft_cacheDir_def bare_world_def)
qed

lemma GetThumbnail_installed:
  "GetThumbnail installed_world draft_provider 256 =
     Some (S_OK, Some (GdiBitmap (FromFile draft_cache 256 256) (ARGB 255 255 255 255)), WTSAT_ARGB,
           [Call_GetTempPathW, Call_CreateDirectoryW draft_cacheDir,
            Call_GetFileAttributesExW draft_path, Call_PathFileExistsW draft_cache,
            Call_PathFileExistsW (hd searchPaths), Call_CreateProcessW draft_cmd,
            Call_WaitForSingleObject 1 5000, Call_GetExitCodeProcess 1, Call_CloseHandle 1,
            Call_CloseHandle 2, Call_Bitmap_FromFile draft_cache,
            Call_GetHBITMAP (FromFile draft_cache 256 256)])"
  by (simp only: GetThumbnail_def GenerateThumbnail_installed)
     (simp add: Bitmap_FromFile_def GetHBITMAP_def Color4_def Let_def installed_world_def
        bare_world_def)

lemma GetThumbnail_bare:
  "GetThumbnail bare_world draft_provider 256 =
     Some (S_OK, Some (GdiBitmap (placeholderBitmap 256) (ARGB 255 255 255 255)), WTSAT_ARGB,
           [Call_GetTempPathW, Call_CreateDirectoryW draft_cacheDir,
            Call_GetFileAttributesExW draft_path, Call_PathFileExistsW draft_cache,
            Call_PathFileExistsW (searchPaths ! 0), Call_PathFileExistsW (searchPaths ! 1),
            Call_GetEnvironmentVariableW ''PATH'', Call_GetHBITMAP (placeholderBitmap 256)])"
  using GetHBITMAP_Ok_256(2)
  by (simp add: GetThumbnail_def GenerateThumbnail_bare GeneratePlaceholder_result)

lemma GenerateThumbnail_stamped:
  "GenerateThumbnail stamped_world draft_provider 256 [] =
     Some (S_OK, stamped_cache,
           [Call_GetTempPathW, Call_CreateDirectoryW draft_cacheDir,
            Call_GetFileAttributesExW draft_path, Call_PathFileExistsW stamped_cache])"
  by (simp add: code_defs unat_QuadPart [unfolded QuadPart_def] stamped_world_def
        stamped_cache_def world_defs)

lemma GenerateThumbnail_touched:
  "GenerateThumbnail touched_world draft_provider 256 [] =
     Some (E_FAIL, draft_cacheDir @ ''draft.wiretuner-133444740294967296-256.png'',
           [Call_GetTempPathW, Call_CreateDirectoryW draft_cacheDir,
            Call_GetFileAttributesExW draft_path,
            Call_PathFileExistsW (draft_cacheDir @ ''draft.wiretuner-133444740294967296-256.png''),
            Call_PathFileExistsW (searchPaths ! 0), Call_PathFileExistsW (searchPaths ! 1),
            Call_GetEnvironmentVariableW ''PATH''])"
  by (simp add: code_defs unat_QuadPart [unfolded QuadPart_def] FindWireTunerCLI_def
        searchPaths_def touched_world_def stamped_world_def stamped_cache_def world_defs)

lemma GenerateThumbnail_cached_512:
  "GenerateThumbnail cached_world draft_provider 512 [] =
     Some (E_FAIL, draft_cacheDir @ ''draft.wiretuner-1700000000-512.png'',
           [Call_GetTempPathW, Call_CreateDirectoryW draft_cacheDir,
            Call_GetFileAttributesExW draft_path,
            Call_PathFileExistsW (draft_cacheDir @ ''draft.wiretuner-1700000000-512.png''),
            Call_PathFileExistsW (searchPaths ! 0), Call_PathFileExistsW (searchPaths ! 1),
            Call_GetEnvironmentVariableW ''PATH''])"
  by (simp add: code_defs FindWireTunerCLI_def searchPaths_def world_defs)

section \<open>The claims\<close>

text \<open>
  C1 (as amended). For every file and size, when one of the internal failures occurs
  (file identity unreadable, renderer missing, launch failure, wait not ended by the
  process, nonzero exit, cached or rendered file not decodable), \<^verbatim>\<open>GetThumbnail\<close> returns
  what \<^verbatim>\<open>GeneratePlaceholder\<close> returns: \<^verbatim>\<open>S_OK\<close> with the placeholder, whose width and height
  are the requested size, when GDI+ makes a handle from the placeholder bitmap, and
  \<^verbatim>\<open>E_FAIL\<close> with a null handle when it does not.
\<close>

theorem fallback_on_internal_failure:
  assumes "failureOccurs w this cx failure"
  shows "(\<exists>calls. GetThumbnail w this cx =
            Some (if GetHBITMAP_Ok w (placeholderBitmap cx)
                  then (S_OK, Some (GdiBitmap (placeholderBitmap cx) (ARGB 255 255 255 255)),
                        WTSAT_ARGB, calls)
                  else (E_FAIL, NULL, WTSAT_ARGB, calls))) \<and>
         GetWidth (placeholderBitmap cx) = cx \<and> GetHeight (placeholderBitmap cx) = cx"
proof -
  have dims: "GetWidth (placeholderBitmap cx) = cx \<and> GetHeight (placeholderBitmap cx) = cx"
    by (simp add: placeholderBitmap_def Let_def)
  show ?thesis
  proof (cases "failure = ImageDecodeFailed")
    case True
    with assms obtain outPath calls
      where "GenerateThumbnail w this cx [] = Some (S_OK, outPath, calls)"
        and "ImageFile w outPath = None"
      by (auto split: option.splits)
    then show ?thesis
      using GetThumbnail_fallback [of w this cx S_OK outPath calls] dims by simp
  next
    case False
    with assms obtain outPath calls
      where "GenerateThumbnail w this cx [] = Some (E_FAIL, outPath, calls)"
      using GenerateThumbnail_failure by blast
    then show ?thesis
      using GetThumbnail_fallback [of w this cx E_FAIL outPath calls] dims by simp
  qed
qed

text \<open>Each of the six failures, at size 256, in a world where GDI+ makes the handle.\<close>

theorem fallback_on_internal_failure_witness:
  "failureOccurs unreadable_world draft_provider 256 FileIdentityUnavailable \<and>
   failureOccurs bare_world draft_provider 256 RendererNotFound \<and>
   failureOccurs denied_world draft_provider 256 ProcessLaunchFailed \<and>
   failureOccurs hung_world draft_provider 256 ProcessTimedOut \<and>
   failureOccurs crashed_world draft_provider 256 ProcessNonZeroExit \<and>
   failureOccurs corrupt_world draft_provider 256 ImageDecodeFailed \<and>
   (\<exists>calls. GetThumbnail unreadable_world draft_provider 256 =
      Some (S_OK, Some (GdiBitmap (placeholderBitmap 256) (ARGB 255 255 255 255)), WTSAT_ARGB, calls)) \<and>
   (\<exists>calls. GetThumbnail bare_world draft_provider 256 =
      Some (S_OK, Some (GdiBitmap (placeholderBitmap 256) (ARGB 255 255 255 255)), WTSAT_ARGB, calls)) \<and>
   (\<exists>calls. GetThumbnail denied_world draft_provider 256 =
      Some (S_OK, Some (GdiBitmap (placeholderBitmap 256) (ARGB 255 255 255 255)), WTSAT_ARGB, calls)) \<and>
   (\<exists>calls. GetThumbnail hung_world draft_provider 256 =
      Some (S_OK, Some (GdiBitmap (placeholderBitmap 256) (ARGB 255 255 255 255)), WTSAT_ARGB, calls)) \<and>
   (\<exists>calls. GetThumbnail crashed_world draft_provider 256 =
      Some (S_OK, Some (GdiBitmap (placeholderBitmap 256) (ARGB 255 255 255 255)), WTSAT_ARGB, calls)) \<and>
   (\<exists>calls. GetThumbnail corrupt_world draft_provider 256 =
      Some (S_OK, Some (GdiBitmap (placeholderBitmap 256) (ARGB 255 255 255 255)), WTSAT_ARGB, calls)) \<and>
   GetWidth (placeholderBitmap 256) = 256 \<and> GetHeight (placeholderBitmap 256) = 256"
  using fallback_on_internal_failure [OF failure_unreadable]
    fallback_on_internal_failure [OF failure_bare]
    fallback_on_internal_failure [OF failure_denied]
    fallback_on_internal_failure [OF failure_hung]
    fallback_on_internal_failure [OF failure_crashed]
    fallback_on_internal_failure [OF failure_corrupt]
    failure_unreadable failure_bare failure_denied failure_hung failure_crashed failure_corrupt
  by (simp only: GetHBITMAP_Ok_256 if_True)

text \<open>
  The claim as stated fails: with the file unreadable and size 0, GDI+ makes no handle from
  the empty placeholder and \<^verbatim>\<open>GetThumbnail\<close> returns \<^verbatim>\<open>E_FAIL\<close> and a null handle; so it does
  at size 256 with no renderer when GDI+ makes no handle at all.
\<close>

theorem fallback_on_internal_failure_counterexample:
  "GetFileAttributesExW unreadable_world (m_filePath draft_provider) = None \<and>
   GetThumbnail unreadable_world draft_provider 0 =
     Some (E_FAIL, NULL, WTSAT_ARGB,
           [Call_GetTempPathW, Call_CreateDirectoryW draft_cacheDir,
            Call_GetFileAttributesExW draft_path, Call_GetHBITMAP (placeholderBitmap 0)]) \<and>
   fst (FindWireTunerCLI exhausted_world) = [] \<and>
   GetThumbnail exhausted_world draft_provider 256 =
     Some (E_FAIL, NULL, WTSAT_ARGB,
           [Call_GetTempPathW, Call_CreateDirectoryW draft_cacheDir,
            Call_GetFileAttributesExW draft_path, Call_PathFileExistsW draft_cache,
            Call_PathFileExistsW (searchPaths ! 0), Call_PathFileExistsW (searchPaths ! 1),
            Call_GetEnvironmentVariableW ''PATH'', Call_GetHBITMAP (placeholderBitmap 256)])"
proof -
  have "GetThumbnail exhausted_world draft_provider 256 =
     Some (E_FAIL, NULL, WTSAT_ARGB,
           [Call_GetTempPathW, Call_CreateDirectoryW draft_cacheDir,
            Call_GetFileAttributesExW draft_path, Call_PathFileExistsW draft_cache,
            Call_PathFileExistsW (searchPaths ! 0), Call_PathFileExistsW (searchPaths ! 1),
            Call_GetEnvironmentVariableW ''PATH'', Call_GetHBITMAP (placeholderBitmap 256)])"
    by (simp only: GetThumbnail_def GenerateThumbnail_exhausted)
       (simp add: GeneratePlaceholder_result exhausted_world_def)
  then show ?thesis
    using GetThumbnail_unreadable_0
    by (simp add: FindWireTunerCLI_exhausted) (simp add: unreadable_world_def)
qed

text \<open>
  C2 (as amended). When \<^verbatim>\<open>GetThumbnail\<close> returns \<^verbatim>\<open>S_OK\<close>, the image is either the placeholder,
  whose width and height are the requested size, or the file at the cache location (a
  cache entry or the output of the renderer) as decoded, with the width and height found in
  that file, whatever they are.
\<close>

theorem returned_image_dimensions:
  assumes "GetThumbnail w this cx = Some (S_OK, Some bmp, pdwAlpha, calls)"
  shows "(source bmp = placeholderBitmap cx \<and>
          GetWidth (source bmp) = cx \<and> GetHeight (source bmp) = cx) \<or>
         (\<exists>outPath width height calls'.
            GenerateThumbnail w this cx [] = Some (S_OK, outPath, calls') \<and>
            ImageFile w outPath = Some (width, height) \<and>
            source bmp = FromFile outPath width height \<and>
            GetWidth (source bmp) = width \<and> GetHeight (source bmp) = height)"
proof -
  have dims: "GetWidth (placeholderBitmap cx) = cx \<and> GetHeight (placeholderBitmap cx) = cx"
    by (simp add: placeholderBitmap_def Let_def)
  obtain hr outPath calls' where gen: "GenerateThumbnail w this cx [] = Some (hr, outPath, calls')"
    using assms by (auto simp: GetThumbnail_def split: option.splits)
  show ?thesis
  proof (cases "FAILED hr \<or> ImageFile w outPath = None")
    case True
    with gen assms dims show ?thesis
      by (auto simp: GetThumbnail_def GeneratePlaceholder_result Bitmap_FromFile_def
               split: if_splits)
  next
    case False
    then obtain width height where img: "ImageFile w outPath = Some (width, height)"
      by auto
    from False have "hr = S_OK" by (cases hr) simp_all
    with gen img assms show ?thesis
      by (auto simp: GetThumbnail_def Bitmap_FromFile_def GetHBITMAP_def Let_def
               split: if_splits)
  qed
qed

text \<open>A rendered file of 256 by 256 at size 256, and the placeholder at size 256.\<close>

theorem returned_image_dimensions_witness:
  "GetThumbnail installed_world draft_provider 256 =
     Some (S_OK, Some (GdiBitmap (FromFile draft_cache 256 256) (ARGB 255 255 255 255)), WTSAT_ARGB,
           [Call_GetTempPathW, Call_CreateDirectoryW draft_cacheDir,
            Call_GetFileAttributesExW draft_path, Call_PathFileExistsW draft_cache,
            Call_PathFileExistsW (hd searchPaths), Call_CreateProcessW draft_cmd,
            Call_WaitForSingleObject 1 5000, Call_GetExitCodeProcess 1, Call_CloseHandle 1,
            Call_CloseHandle 2, Call_Bitmap_FromFile draft_cache,
            Call_GetHBITMAP (FromFile draft_cache 256 256)]) \<and>
   ImageFile installed_world draft_cache = Some (256, 256) \<and>
   GetWidth (FromFile draft_cache 256 256) = 256 \<and>
   GetThumbnail bare_world draft_provider 256 =
     Some (S_OK, Some (GdiBitmap (placeholderBitmap 256) (ARGB 255 255 255 255)), WTSAT_ARGB,
           [Call_GetTempPathW, Call_CreateDirectoryW draft_cacheDir,
            Call_GetFileAttributesExW draft_path, Call_PathFileExistsW draft_cache,
            Call_PathFileExistsW (searchPaths ! 0), Call_PathFileExistsW (searchPaths ! 1),
            Call_GetEnvironmentVariableW ''PATH'', Call_GetHBITMAP (placeholderBitmap 256)]) \<and>
   GetWidth (placeholderBitmap 256) = 256 \<and> GetHeight (placeholderBitmap 256) = 256"
proof -
  have "ImageFile installed_world draft_cache = Some (256, 256)"
    by (simp add: installed_world_def)
  moreover have "GetWidth (placeholderBitmap 256) = 256 \<and> GetHeight (placeholderBitmap 256) = 256"
    using returned_image_dimensions [OF GetThumbnail_bare] GenerateThumbnail_installed
    by (simp add: placeholderBitmap_256)
  ultimately show ?thesis
    using returned_image_dimensions [OF GetThumbnail_installed]
      GetThumbnail_installed GetThumbnail_bare
    by simp
qed

text \<open>
  The claim as stated fails: a cache entry of 64 by 64 pixels is returned with \<^verbatim>\<open>S_OK\<close> for a
  request of size 256.
\<close>

theorem returned_image_dimensions_counterexample:
  "GetThumbnail cached_world draft_provider 256 =
     Some (S_OK, Some (GdiBitmap (FromFile draft_cache 64 64) (ARGB 255 255 255 255)), WTSAT_ARGB,
           [Call_GetTempPathW, Call_CreateDirectoryW draft_cacheDir,
            Call_GetFileAttributesExW draft_path, Call_PathFileExistsW draft_cache,
            Call_Bitmap_FromFile draft_cache, Call_GetHBITMAP (FromFile draft_cache 64 64)]) \<and>
   GetWidth (FromFile draft_cache 64 64) \<noteq> 256 \<and>
   GetHeight (FromFile draft_cache 64 64) \<noteq> 256"
  using GetThumbnail_cached by simp

text \<open>
  C3. The claim says that every directory of \<^verbatim>\<open>PATH\<close> is checked. The loop of
  \<^verbatim>\<open>FindWireTunerCLI\<close> only checks a directory that is followed by a semicolon: with the
  renderer in the last directory of \<^verbatim>\<open>PATH\<close>, and nowhere else, the method probes the two
  fixed paths and the first directory and returns the empty string.
\<close>

theorem FindWireTunerCLI_skips_last_PATH_directory:
  "GetEnvironmentVariableW tools_world ''PATH'' =
     Some (''C:'' @ [BSLASH] @ ''Windows;C:'' @ [BSLASH] @ ''tools'') \<and>
   PathFileExistsW tools_world (''C:'' @ [BSLASH] @ ''tools'' @ [BSLASH] @ ''wiretuner.exe'') \<and>
   FindWireTunerCLI tools_world =
     ([], [Call_PathFileExistsW (searchPaths ! 0), Call_PathFileExistsW (searchPaths ! 1),
           Call_GetEnvironmentVariableW ''PATH'',
           Call_PathFileExistsW (''C:'' @ [BSLASH] @ ''Windows'' @ [BSLASH] @ ''wiretuner.exe'')])"
  by code_simp

text \<open>
  C4. For every file that can be read, with last write time \<open>t\<close> (the 64-bit number whose
  high and low parts are \<^verbatim>\<open>dwHighDateTime\<close> and \<^verbatim>\<open>dwLowDateTime\<close> of the file's
  \<^verbatim>\<open>ftLastWriteTime\<close>), asked for at size \<open>n\<close>: the cache key, whenever it is formed, is the
  base name of the path, a dash, \<open>t\<close> in decimal, a dash, \<open>n\<close> in decimal and \<^verbatim>\<open>.png\<close>; it is
  always formed when the base name has at most 255 characters (the longest name a Windows
  file system stores; the key is formatted into 512 wide characters); and the cache
  location that \<^verbatim>\<open>GenerateThumbnail\<close> returns is the temporary directory, then
  \<^verbatim>\<open>wiretuner-thumbnails\<close> and a backslash, then that key.
\<close>

theorem cache_entry_location:
  assumes "GetFileAttributesExW w (m_filePath this) = Some ft"
  shows "(\<forall>key. cacheKey (m_filePath this) (QuadPart ft) cx = Some key \<longrightarrow>
            key = PathFindFileNameW (m_filePath this) @ ''-'' @
                  decimal (unat (dwHighDateTime ft) * 2 ^ 32 + unat (dwLowDateTime ft)) @
                  ''-'' @ decimal (unat cx) @ ''.png'') \<and>
         (length (PathFindFileNameW (m_filePath this)) \<le> 255 \<longrightarrow>
            cacheKey (m_filePath this) (QuadPart ft) cx \<noteq> None) \<and>
         (\<forall>hr outPath calls.
            GenerateThumbnail w this cx outPath0 = Some (hr, outPath, calls) \<longrightarrow>
            outPath = GetTempPathW w @ ''wiretuner-thumbnails'' @ [BSLASH] @
                      PathFindFileNameW (m_filePath this) @ ''-'' @
                      decimal (unat (dwHighDateTime ft) * 2 ^ 32 + unat (dwLowDateTime ft)) @
                      ''-'' @ decimal (unat cx) @ ''.png'')"
proof -
  let ?text = "cacheKeyText (m_filePath this) (QuadPart ft) cx"
  have key: "key = ?text" if "cacheKey (m_filePath this) (QuadPart ft) cx = Some key" for key
    using that by (rule cacheKey_Some)
  have fits: "cacheKey (m_filePath this) (QuadPart ft) cx \<noteq> None"
    if "length (PathFindFileNameW (m_filePath this)) \<le> 255"
    using cacheKey_fits [OF that, of "QuadPart ft" cx] by simp
  have out: "outPath = cacheDir w @ ?text"
    if "GenerateThumbnail w this cx outPath0 = Some (hr, outPath, calls)" for hr outPath calls
    using GenerateThumbnail_outPath [OF assms that] by simp
  from key fits out show ?thesis
    by (simp add: cacheKeyText_def cacheDir_def unat_QuadPart)
qed

text \<open>
  The document \<^verbatim>\<open>draft.wiretuner\<close> at size 256: with last write time 1700000000 the key is
  \<^verbatim>\<open>draft.wiretuner-1700000000-256.png\<close>; with high part 31070023 and low part 3329032192
  it is \<^verbatim>\<open>draft.wiretuner-133444736000000000-256.png\<close>.
\<close>

theorem cache_entry_location_witness:
  "GetFileAttributesExW cached_world (m_filePath draft_provider) =
     Some \<lparr>dwLowDateTime = 1700000000, dwHighDateTime = 0\<rparr> \<and>
   length (PathFindFileNameW (m_filePath draft_provider)) \<le> 255 \<and>
   PathFindFileNameW (m_filePath draft_provider) = ''draft.wiretuner'' \<and>
   cacheKey (m_filePath draft_provider)
     (QuadPart \<lparr>dwLowDateTime = 1700000000, dwHighDateTime = 0\<rparr>) 256 =
     Some ''draft.wiretuner-1700000000-256.png'' \<and>
   GenerateThumbnail cached_world draft_provider 256 [] =
     Some (S_OK,
           ''C:'' @ [BSLASH] @ ''Temp'' @ [BSLASH] @ ''wiretuner-thumbnails'' @ [BSLASH] @
           ''draft.wiretuner-1700000000-256.png'',
           [Call_GetTempPathW, Call_CreateDirectoryW draft_cacheDir,
            Call_GetFileAttributesExW draft_path, Call_PathFileExistsW draft_cache]) \<and>
   GetFileAttributesExW stamped_world (m_filePath draft_provider) =
     Some \<lparr>dwLowDateTime = 3329032192, dwHighDateTime = 31070023\<rparr> \<and>
   cacheKey (m_filePath draft_provider)
     (QuadPart \<lparr>dwLowDateTime = 3329032192, dwHighDateTime = 31070023\<rparr>) 256 =
     Some ''draft.wiretuner-133444736000000000-256.png'' \<and>
   GenerateThumbnail stamped_world draft_provider 256 [] =
     Some (S_OK,
           ''C:'' @ [BSLASH] @ ''Temp'' @ [BSLASH] @ ''wiretuner-thumbnails'' @ [BSLASH] @
           ''draft.wiretuner-133444736000000000-256.png'',
           [Call_GetTempPathW, Call_CreateDirectoryW draft_cacheDir,
            Call_GetFileAttributesExW draft_path, Call_PathFileExistsW stamped_cache])"
proof -
  have a: "GetFileAttributesExW cached_world (m_filePath draft_provider) =
             Some \<lparr>dwLowDateTime = 1700000000, dwHighDateTime = 0\<rparr>"
    by (simp add: world_defs)
  have a': "GetFileAttributesExW stamped_world (m_filePath draft_provider) =
             Some \<lparr>dwLowDateTime = 3329032192, dwHighDateTime = 31070023\<rparr>"
    by (simp add: stamped_world_def world_defs)
  have n: "PathFindFileNameW (m_filePath draft_provider) = ''draft.wiretuner''"
    by (simp add: PathFindFileNameW_def world_defs)
  then have b: "length (PathFindFileNameW (m_filePath draft_provider)) \<le> 255"
    by simp
  from cache_entry_location [OF a, of 256 "[]"] cache_entry_location [OF a', of 256 "[]"]
    GenerateThumbnail_cached GenerateThumbnail_stamped a a' b n
  show ?thesis
    by (auto simp: stamped_cache_def draft_cache_def draft_cacheDir_def)
qed

text \<open>
  C5. Take two runs of \<^verbatim>\<open>GenerateThumbnail\<close> for the same path, with the same temporary
  directory, that both return. When the file's last write time differs between them (in
  its low or in its high part) or the requested size differs, the two cache keys differ
  and the two cache locations differ; and when nothing exists at the location of the
  second run, that run goes on to look for the renderer, whatever older cache entries
  exist: no stale entry is hit.
\<close>

theorem cache_key_sensitivity:
  assumes "GetFileAttributesExW w (m_filePath this) = Some ft"
    and "GetFileAttributesExW w' (m_filePath this) = Some ft'"
    and "GetTempPathW w' = GetTempPathW w"
    and "GenerateThumbnail w this cx outPath0 = Some (hr, outPath, calls)"
    and "GenerateThumbnail w' this cx' outPath0' = Some (hr', outPath', calls')"
    and "ft' \<noteq> ft \<or> cx' \<noteq> cx"
  shows "cacheKey (m_filePath this) (QuadPart ft') cx' \<noteq> cacheKey (m_filePath this) (QuadPart ft) cx \<and>
         outPath' \<noteq> outPath \<and>
         (\<not> PathFileExistsW w' outPath' \<longrightarrow>
            Call_PathFileExistsW (hd searchPaths) \<in> set calls')"
proof -
  let ?fp = "m_filePath this"
  from GenerateThumbnail_outPath [OF assms(1) assms(4)]
  have out: "outPath = cacheDir w @ cacheKeyText ?fp (QuadPart ft) cx"
    and key: "cacheKey ?fp (QuadPart ft) cx = Some (cacheKeyText ?fp (QuadPart ft) cx)"
    by simp_all
  from GenerateThumbnail_outPath [OF assms(2) assms(5)]
  have out': "outPath' = cacheDir w' @ cacheKeyText ?fp (QuadPart ft') cx'"
    and key': "cacheKey ?fp (QuadPart ft') cx' = Some (cacheKeyText ?fp (QuadPart ft') cx')"
    by simp_all
  have differ: "cacheKeyText ?fp (QuadPart ft') cx' \<noteq> cacheKeyText ?fp (QuadPart ft) cx"
  proof
    assume "cacheKeyText ?fp (QuadPart ft') cx' = cacheKeyText ?fp (QuadPart ft) cx"
    then have "QuadPart ft' = QuadPart ft \<and> cx' = cx"
      by (rule cacheKeyText_inj)
    then have "ft' = ft \<and> cx' = cx"
      by (simp add: QuadPart_inj)
    with assms(6) show False by simp
  qed
  have dir: "cacheDir w' = cacheDir w"
    using assms(3) by (simp add: cacheDir_def)
  have probe: "Call_PathFileExistsW (hd searchPaths) \<in> set calls'"
    if "\<not> PathFileExistsW w' outPath'"
    using assms(2) assms(5) that by (rule GenerateThumbnail_miss_probes)
  from differ key key' out out' dir probe show ?thesis
    by simp
qed

text \<open>
  A cache entry for the last write time with high part 31070023 is not hit after the high
  part has become 31070024, and the entry for size 256 is not hit at size 512.
\<close>

theorem cache_key_sensitivity_witness:
  "GetFileAttributesExW stamped_world (m_filePath draft_provider) =
     Some \<lparr>dwLowDateTime = 3329032192, dwHighDateTime = 31070023\<rparr> \<and>
   GetFileAttributesExW touched_world (m_filePath draft_provider) =
     Some \<lparr>dwLowDateTime = 3329032192, dwHighDateTime = 31070024\<rparr> \<and>
   GetTempPathW touched_world = GetTempPathW stamped_world \<and>
   PathFileExistsW touched_world stamped_cache \<and>
   GenerateThumbnail stamped_world draft_provider 256 [] =
     Some (S_OK, stamped_cache,
           [Call_GetTempPathW, Call_CreateDirectoryW draft_cacheDir,
            Call_GetFileAttributesExW draft_path, Call_PathFileExistsW stamped_cache]) \<and>
   GenerateThumbnail touched_world draft_provider 256 [] =
     Some (E_FAIL, draft_cacheDir @ ''draft.wiretuner-133444740294967296-256.png'',
           [Call_GetTempPathW, Call_CreateDirectoryW draft_cacheDir,
            Call_GetFileAttributesExW draft_path,
            Call_PathFileExistsW (draft_cacheDir @ ''draft.wiretuner-133444740294967296-256.png''),
            Call_PathFileExistsW (searchPaths ! 0), Call_PathFileExistsW (searchPaths ! 1),
            Call_GetEnvironmentVariableW ''PATH'']) \<and>
   draft_cacheDir @ ''draft.wiretuner-133444740294967296-256.png'' \<noteq> stamped_cache \<and>
   cacheKey (m_filePath draft_provider)
     (QuadPart \<lparr>dwLowDateTime = 3329032192, dwHighDateTime = 31070024\<rparr>) 256 \<noteq>
   cacheKey (m_filePath draft_provider)
     (QuadPart \<lparr>dwLowDateTime = 3329032192, dwHighDateTime = 31070023\<rparr>) 256 \<and>
   GenerateThumbnail cached_world draft_provider 256 [] =
     Some (S_OK, draft_cache,
           [Call_GetTempPathW, Call_CreateDirectoryW draft_cacheDir,
            Call_GetFileAttributesExW draft_path, Call_PathFileExistsW draft_cache]) \<and>
   GenerateThumbnail cached_world draft_provider 512 [] =
     Some (E_FAIL, draft_cacheDir @ ''draft.wiretuner-1700000000-512.png'',
           [Call_GetTempPathW, Call_CreateDirectoryW draft_cacheDir,
            Call_GetFileAttributesExW draft_path,
            Call_PathFileExistsW (draft_cacheDir @ ''draft.wiretuner-1700000000-512.png''),
            Call_PathFileExistsW (searchPaths ! 0), Call_PathFileExistsW (searchPaths ! 1),
            Call_GetEnvironmentVariableW ''PATH'']) \<and>
   draft_cacheDir @ ''draft.wiretuner-1700000000-512.png'' \<noteq> draft_cache"
proof -
  let ?ft = "\<lparr>dwLowDateTime = 3329032192, dwHighDateTime = 31070023\<rparr> :: FILETIME"
  let ?ft' = "\<lparr>dwLowDateTime = 3329032192, dwHighDateTime = 31070024\<rparr> :: FILETIME"
  let ?first = "\<lparr>dwLowDateTime = 1700000000, dwHighDateTime = 0\<rparr> :: FILETIME"
  have a: "GetFileAttributesExW stamped_world (m_filePath draft_provider) = Some ?ft"
    by (simp add: stamped_world_def world_defs)
  have a': "GetFileAttributesExW touched_world (m_filePath draft_provider) = Some ?ft'"
    by (simp add: touched_world_def world_defs)
  have t: "GetTempPathW touched_world = GetTempPathW stamped_world"
    by (simp add: touched_world_def)
  have e: "PathFileExistsW touched_world stamped_cache"
    by (simp add: touched_world_def stamped_world_def)
  have d: "?ft' \<noteq> ?ft \<or> (256 :: UINT) \<noteq> 256"
    by simp
  have c: "GetFileAttributesExW cached_world (m_filePath draft_provider) = Some ?first"
    by (simp add: world_defs)
  have d2: "?first \<noteq> ?first \<or> (512 :: UINT) \<noteq> 256"
    by simp
  from cache_key_sensitivity [OF c c refl GenerateThumbnail_cached GenerateThumbnail_cached_512 d2]
  have r2: "draft_cacheDir @ ''draft.wiretuner-1700000000-512.png'' \<noteq> draft_cache"
    by simp
  from cache_key_sensitivity [OF a a' t GenerateThumbnail_stamped GenerateThumbnail_touched d]
    a a' t e GenerateThumbnail_stamped GenerateThumbnail_touched GenerateThumbnail_cached
    GenerateThumbnail_cached_512 r2
  show ?thesis by simp
qed

text \<open>
  C6. When the file can be read, its cache key is formed and a file exists at the cache
  location, \<^verbatim>\<open>GetThumbnail\<close> returns after exactly six calls: the temporary directory, the
  cache directory, the file attributes, the probe of the cache location, the decoding of
  the cache entry and one \<^verbatim>\<open>GetHBITMAP\<close>. It probes no renderer path, reads no \<^verbatim>\<open>PATH\<close> and
  starts no process.
\<close>

theorem cache_hit_skips_renderer:
  assumes "GetFileAttributesExW w (m_filePath this) = Some ft"
    and "cacheKey (m_filePath this) (QuadPart ft) cx = Some key"
    and "PathFileExistsW w (cacheDir w @ key)"
  shows "\<exists>hr phbmp bitmap.
           GetThumbnail w this cx =
             Some (hr, phbmp, WTSAT_ARGB,
                   [Call_GetTempPathW, Call_CreateDirectoryW (cacheDir w),
                    Call_GetFileAttributesExW (m_filePath this),
                    Call_PathFileExistsW (cacheDir w @ key),
                    Call_Bitmap_FromFile (cacheDir w @ key),
                    Call_GetHBITMAP bitmap])"
proof (cases "Bitmap_FromFile w (cacheDir w @ key)")
  case None
  then show ?thesis
    by (simp add: GetThumbnail_def GenerateThumbnail_hit [OF assms] GeneratePlaceholder_result)
next
  case (Some bitmap)
  then show ?thesis
    by (simp add: GetThumbnail_def GenerateThumbnail_hit [OF assms] Let_def)
qed

theorem cache_hit_skips_renderer_witness:
  "GetFileAttributesExW cached_world (m_filePath draft_provider) =
     Some \<lparr>dwLowDateTime = 1700000000, dwHighDateTime = 0\<rparr> \<and>
   cacheKey (m_filePath draft_provider) (QuadPart \<lparr>dwLowDateTime = 1700000000, dwHighDateTime = 0\<rparr>) 256 =
     Some ''draft.wiretuner-1700000000-256.png'' \<and>
   PathFileExistsW cached_world (cacheDir cached_world @ ''draft.wiretuner-1700000000-256.png'') \<and>
   (\<exists>hr phbmp bitmap.
      GetThumbnail cached_world draft_provider 256 =
        Some (hr, phbmp, WTSAT_ARGB,
              [Call_GetTempPathW, Call_CreateDirectoryW (cacheDir cached_world),
               Call_GetFileAttributesExW (m_filePath draft_provider),
               Call_PathFileExistsW (cacheDir cached_world @ ''draft.wiretuner-1700000000-256.png''),
               Call_Bitmap_FromFile (cacheDir cached_world @ ''draft.wiretuner-1700000000-256.png''),
               Call_GetHBITMAP bitmap]))"
proof -
  have a: "GetFileAttributesExW cached_world (m_filePath draft_provider) =
             Some \<lparr>dwLowDateTime = 1700000000, dwHighDateTime = 0\<rparr>"
    by (simp add: world_defs)
  have b: "cacheKey (m_filePath draft_provider)
             (QuadPart \<lparr>dwLowDateTime = 1700000000, dwHighDateTime = 0\<rparr>) 256 =
           Some ''draft.wiretuner-1700000000-256.png''"
    using cacheKey_draft by (simp add: QuadPart_def draft_provider_def)
  have c: "PathFileExistsW cached_world (cacheDir cached_world @ ''draft.wiretuner-1700000000-256.png'')"
    by (simp add: cacheDir_def world_defs)
  from cache_hit_skips_renderer [OF a b c] a b c show ?thesis
    by blast
qed

text \<open>
  C7. On a cache miss with the renderer found and the command line formed,
  \<^verbatim>\<open>GenerateThumbnail\<close> returns \<^verbatim>\<open>S_OK\<close> exactly when the process starts, the wait of 5000
  milliseconds ends with \<^verbatim>\<open>WAIT_OBJECT_0\<close> and the exit code read is 0. When the process does
  not start it returns \<^verbatim>\<open>E_FAIL\<close>, its last call is \<^verbatim>\<open>CreateProcessW\<close> and it has waited for
  nothing; when the process starts it waits on the process handle for 5000 milliseconds.
\<close>

theorem renderer_invocation_outcome:
  assumes "GetFileAttributesExW w (m_filePath this) = Some ft"
    and "cacheKey (m_filePath this) (QuadPart ft) cx = Some key"
    and "\<not> PathFileExistsW w (cacheDir w @ key)"
    and "FindWireTunerCLI w = (cliPath, callsF)"
    and "cliPath \<noteq> []"
    and "cmdLine cliPath (m_filePath this) (cacheDir w @ key) cx = Some cmd"
  shows "\<exists>hr calls.
           GenerateThumbnail w this cx outPath0 = Some (hr, cacheDir w @ key, calls) \<and>
           (hr = S_OK \<longleftrightarrow>
              (\<exists>pi. CreateProcessW w cmd = Some pi \<and>
                    WaitForSingleObject w (hProcess pi) 5000 = WAIT_OBJECT_0 \<and>
                    GetExitCodeProcess w (hProcess pi) = Some 0)) \<and>
           (case CreateProcessW w cmd of
              None \<Rightarrow>
                hr = E_FAIL \<and> last calls = Call_CreateProcessW cmd \<and>
                (\<forall>h ms. Call_WaitForSingleObject h ms \<notin> set calls)
            | Some pi \<Rightarrow>
                Call_CreateProcessW cmd \<in> set calls \<and>
                Call_WaitForSingleObject (hProcess pi) 5000 \<in> set calls)"
proof -
  let ?pre = "[Call_GetTempPathW, Call_CreateDirectoryW (cacheDir w),
               Call_GetFileAttributesExW (m_filePath this),
               Call_PathFileExistsW (cacheDir w @ key)] @ callsF"
  have run: "GenerateThumbnail w this cx outPath0 =
               Some (fst (ExecuteCLI w cmd), cacheDir w @ key, ?pre @ snd (ExecuteCLI w cmd))"
    using GenerateThumbnail_launch [OF assms] by simp
  have probes: "Call_WaitForSingleObject h ms \<notin> set ?pre" for h ms
    using FindWireTunerCLI_callsD [OF assms(4), of "Call_WaitForSingleObject h ms"] by auto
  have tail: "case CreateProcessW w cmd of
                None \<Rightarrow> ExecuteCLI w cmd = (E_FAIL, [Call_CreateProcessW cmd])
              | Some pi \<Rightarrow>
                  Call_CreateProcessW cmd \<in> set (snd (ExecuteCLI w cmd)) \<and>
                  Call_WaitForSingleObject (hProcess pi) 5000 \<in> set (snd (ExecuteCLI w cmd))"
    by (simp add: ExecuteCLI_def Let_def split: option.splits)
  show ?thesis
  proof (cases "CreateProcessW w cmd")
    case None
    with tail have "ExecuteCLI w cmd = (E_FAIL, [Call_CreateProcessW cmd])" by simp
    with run None probes ExecuteCLI_S_OK [of w cmd] show ?thesis by simp
  next
    case (Some pi)
    with tail run ExecuteCLI_S_OK [of w cmd] show ?thesis by simp
  qed
qed

theorem renderer_invocation_outcome_witness:
  "GetFileAttributesExW installed_world (m_filePath draft_provider) =
     Some \<lparr>dwLowDateTime = 1700000000, dwHighDateTime = 0\<rparr> \<and>
   cacheKey (m_filePath draft_provider)
     (QuadPart \<lparr>dwLowDateTime = 1700000000, dwHighDateTime = 0\<rparr>) 256 =
     Some ''draft.wiretuner-1700000000-256.png'' \<and>
   \<not> PathFileExistsW installed_world (cacheDir installed_world @ ''draft.wiretuner-1700000000-256.png'') \<and>
   FindWireTunerCLI installed_world = (hd searchPaths, [Call_PathFileExistsW (hd searchPaths)]) \<and>
   hd searchPaths \<noteq> [] \<and>
   cmdLine (hd searchPaths) (m_filePath draft_provider)
     (cacheDir installed_world @ ''draft.wiretuner-1700000000-256.png'') 256 = Some draft_cmd \<and>
   (\<exists>calls. GenerateThumbnail installed_world draft_provider 256 [] =
              Some (S_OK, cacheDir installed_world @ ''draft.wiretuner-1700000000-256.png'', calls) \<and>
            Call_CreateProcessW draft_cmd \<in> set calls \<and>
            Call_WaitForSingleObject 1 5000 \<in> set calls) \<and>
   (\<exists>calls. GenerateThumbnail denied_world draft_provider 256 [] =
              Some (E_FAIL, cacheDir denied_world @ ''draft.wiretuner-1700000000-256.png'', calls) \<and>
            last calls = Call_CreateProcessW draft_cmd \<and>
            (\<forall>h ms. Call_WaitForSingleObject h ms \<notin> set calls))"
proof -
  let ?ft = "\<lparr>dwLowDateTime = 1700000000, dwHighDateTime = 0\<rparr>"
  let ?key = "''draft.wiretuner-1700000000-256.png''"
  have b: "cacheKey (m_filePath draft_provider) (QuadPart ?ft) 256 = Some ?key"
    using cacheKey_draft by (simp add: QuadPart_def draft_provider_def)
  have e: "hd searchPaths \<noteq> []"
    by (simp add: searchPaths_def)
  have a1: "GetFileAttributesExW installed_world (m_filePath draft_provider) = Some ?ft"
    by (simp add: world_defs)
  have c1: "\<not> PathFileExistsW installed_world (cacheDir installed_world @ ?key)"
    by (simp add: cacheDir_def searchPaths_def world_defs)
  have f1: "cmdLine (hd searchPaths) (m_filePath draft_provider)
              (cacheDir installed_world @ ?key) 256 = Some draft_cmd"
    using cmdLine_draft by (simp add: cacheDir_def world_defs)
  have l1: "CreateProcessW installed_world draft_cmd = Some \<lparr>hProcess = 1, hThread = 2\<rparr>"
    and w1: "WaitForSingleObject installed_world 1 5000 = WAIT_OBJECT_0"
    and x1: "GetExitCodeProcess installed_world 1 = Some 0"
    by (simp_all add: installed_world_def bare_world_def)
  have a2: "GetFileAttributesExW denied_world (m_filePath draft_provider) = Some ?ft"
    by (simp add: denied_world_def world_defs)
  have c2: "\<not> PathFileExistsW denied_world (cacheDir denied_world @ ?key)"
    by (simp add: cacheDir_def searchPaths_def denied_world_def world_defs)
  have f2: "cmdLine (hd searchPaths) (m_filePath draft_provider)
              (cacheDir denied_world @ ?key) 256 = Some draft_cmd"
    using cmdLine_draft by (simp add: cacheDir_def denied_world_def world_defs)
  have l2: "CreateProcessW denied_world draft_cmd = None"
    by (simp add: denied_world_def)
  have r1: "\<exists>calls. GenerateThumbnail installed_world draft_provider 256 [] =
              Some (S_OK, cacheDir installed_world @ ?key, calls) \<and>
            Call_CreateProcessW draft_cmd \<in> set calls \<and>
            Call_WaitForSingleObject 1 5000 \<in> set calls"
    using renderer_invocation_outcome [OF a1 b c1 FindWireTunerCLI_installed e f1, of "[]"]
      l1 w1 x1 by auto
  have r2: "\<exists>calls. GenerateThumbnail denied_world draft_provider 256 [] =
              Some (E_FAIL, cacheDir denied_world @ ?key, calls) \<and>
            last calls = Call_CreateProcessW draft_cmd \<and>
            (\<forall>h ms. Call_WaitForSingleObject h ms \<notin> set calls)"
    using renderer_invocation_outcome [OF a2 b c2 FindWireTunerCLI_denied e f2, of "[]"] l2
    by auto
  from a1 b c1 FindWireTunerCLI_installed e f1 r1 r2 show ?thesis
    by blast
qed

text \<open>
  C8 (as amended). For every size, \<^verbatim>\<open>GeneratePlaceholder\<close> draws, on a bitmap of size by
  size pixels, an opaque white rectangle over the whole bitmap and an ellipse in the brand
  colour whose bounding square starts at (m, m) and has side size - 2 m, where m is
  size div 4. The circle is centred, with m pixels on each side; its diameter is
  size - 2 (size div 4), which is half of the size exactly when the size is a multiple of
  4. For a size below \<open>2 ^ 31\<close> these are the numbers GDI+ reads from the \<^verbatim>\<open>INT\<close> arguments.
  The method returns \<^verbatim>\<open>S_OK\<close> with that image when GDI+ makes a handle from it, and
  \<^verbatim>\<open>E_FAIL\<close> with a null handle when it does not.
\<close>

theorem placeholder_geometry:
  "placeholderBitmap cx =
     Blank32bppARGB cx cx
       [FillRectangle (ARGB 255 255 255 255) 0 0 cx cx,
        FillEllipse (ARGB 255 33 150 243) (cx div 4) (cx div 4)
          (cx - cx div 4 * 2) (cx - cx div 4 * 2)] \<and>
   GetWidth (placeholderBitmap cx) = cx \<and> GetHeight (placeholderBitmap cx) = cx \<and>
   uint (cx div 4) = uint cx div 4 \<and>
   uint (cx - cx div 4 * 2) = uint cx - 2 * (uint cx div 4) \<and>
   uint (cx div 4) + uint (cx - cx div 4 * 2) + uint (cx div 4) = uint cx \<and>
   (2 * uint (cx - cx div 4 * 2) = uint cx \<longleftrightarrow> 4 dvd uint cx) \<and>
   (uint cx < 2 ^ 31 \<longrightarrow>
      sint cx = uint cx \<and> sint (cx div 4) = uint (cx div 4) \<and>
      sint (cx - cx div 4 * 2) = uint (cx - cx div 4 * 2)) \<and>
   GeneratePlaceholder w this cx NULL =
     (if GetHBITMAP_Ok w (placeholderBitmap cx)
      then (S_OK, Some (GdiBitmap (placeholderBitmap cx) (ARGB 255 255 255 255)),
            [Call_GetHBITMAP (placeholderBitmap cx)])
      else (E_FAIL, NULL, [Call_GetHBITMAP (placeholderBitmap cx)]))"
proof -
  have nonneg: "0 \<le> uint cx" by simp
  have shape: "placeholderBitmap cx =
     Blank32bppARGB cx cx
       [FillRectangle (ARGB 255 255 255 255) 0 0 cx cx,
        FillEllipse (ARGB 255 33 150 243) (cx div 4) (cx div 4)
          (cx - cx div 4 * 2) (cx - cx div 4 * 2)]"
    by (simp add: placeholderBitmap_def Color3_def Color4_def Let_def)
  have m: "uint (cx div 4) = uint cx div 4"
    by (rule placeholder_margin)
  have d: "uint (cx - cx div 4 * 2) = uint cx - 2 * (uint cx div 4)"
    by (rule placeholder_diameter)
  have centred: "uint cx div 4 + (uint cx - 2 * (uint cx div 4)) + uint cx div 4 = uint cx"
    by simp
  have half: "(2 * (uint cx - 2 * (uint cx div 4)) = uint cx) \<longleftrightarrow> 4 dvd uint cx"
    by presburger
  have signed: "sint cx = uint cx \<and> sint (cx div 4) = uint (cx div 4) \<and>
      sint (cx - cx div 4 * 2) = uint (cx - cx div 4 * 2)" if small: "uint cx < 2 ^ 31"
  proof -
    have "uint (cx div 4) < 2 ^ 31"
      using small nonneg by (simp add: m)
    moreover have "uint (cx - cx div 4 * 2) < 2 ^ 31"
      using small nonneg by (simp add: d)
    ultimately show ?thesis
      using small by (simp add: sint_small)
  qed
  from shape m d centred half signed show ?thesis
    by (simp add: GeneratePlaceholder_result)
qed

text \<open>Size 256: margin 64, diameter 128.\<close>

theorem placeholder_geometry_witness:
  "uint (256 :: UINT) < 2 ^ 31 \<and>
   placeholderBitmap 256 =
     Blank32bppARGB 256 256
       [FillRectangle (ARGB 255 255 255 255) 0 0 256 256,
        FillEllipse (ARGB 255 33 150 243) 64 64 128 128] \<and>
   sint (256 :: INT32) = 256 \<and> sint (64 :: INT32) = 64 \<and> sint (128 :: INT32) = 128 \<and>
   GeneratePlaceholder bare_world draft_provider 256 NULL =
     (S_OK, Some (GdiBitmap (placeholderBitmap 256) (ARGB 255 255 255 255)),
      [Call_GetHBITMAP (placeholderBitmap 256)])"
proof -
  have h: "uint (256 :: UINT) < 2 ^ 31" by simp
  from placeholder_geometry [of 256 bare_world draft_provider] GetHBITMAP_Ok_256(2) h
  show ?thesis by simp
qed

text \<open>
  The claim as stated fails: at size 6 the margin is 1 and the diameter is 4, not 3; and
  when GDI+ makes no handle the method returns \<^verbatim>\<open>E_FAIL\<close>.
\<close>

theorem placeholder_geometry_counterexample:
  "placeholderBitmap 6 =
     Blank32bppARGB 6 6
       [FillRectangle (ARGB 255 255 255 255) 0 0 6 6,
        FillEllipse (ARGB 255 33 150 243) 1 1 4 4] \<and>
   2 * sint (4 :: INT32) \<noteq> sint (6 :: INT32) \<and>
   GeneratePlaceholder exhausted_world draft_provider 6 NULL =
     (E_FAIL, NULL, [Call_GetHBITMAP (placeholderBitmap 6)])"
proof -
  have "placeholderBitmap 6 =
     Blank32bppARGB 6 6
       [FillRectangle (ARGB 255 255 255 255) 0 0 6 6,
        FillEllipse (ARGB 255 33 150 243) 1 1 4 4]"
    by (simp add: placeholderBitmap_def Color3_def Color4_def)
  moreover have "GeneratePlaceholder exhausted_world draft_provider 6 NULL =
     (E_FAIL, NULL, [Call_GetHBITMAP (placeholderBitmap 6)])"
    by (simp add: GeneratePlaceholder_result exhausted_world_def)
  ultimately show ?thesis by simp
qed

text \<open>
  C9. Whenever \<^verbatim>\<open>GetThumbnail\<close> returns, on any of its paths, its status is \<^verbatim>\<open>S_OK\<close>
  exactly when the handle it leaves in \<^verbatim>\<open>*phbmp\<close> is not null, and a failure code exactly when
  the handle is null.
\<close>

theorem GetThumbnail_status_iff_handle:
  "GetThumbnail w this cx = Some (hr, phbmp, pdwAlpha, calls) \<Longrightarrow>
     (hr = S_OK \<longleftrightarrow> phbmp \<noteq> NULL) \<and> (FAILED hr \<longleftrightarrow> phbmp = NULL)"
  by (auto simp: GetThumbnail_def GeneratePlaceholder_result GetHBITMAP_def Let_def
           split: option.splits prod.splits if_splits)

theorem GetThumbnail_status_iff_handle_witness:
  "GetThumbnail cached_world draft_provider 256 =
     Some (S_OK, Some (GdiBitmap (FromFile draft_cache 64 64) (ARGB 255 255 255 255)), WTSAT_ARGB,
           [Call_GetTempPathW, Call_CreateDirectoryW draft_cacheDir,
            Call_GetFileAttributesExW draft_path, Call_PathFileExistsW draft_cache,
            Call_Bitmap_FromFile draft_cache, Call_GetHBITMAP (FromFile draft_cache 64 64)]) \<and>
   \<not> FAILED S_OK \<and>
   GetThumbnail unreadable_world draft_provider 0 =
     Some (E_FAIL, NULL, WTSAT_ARGB,
           [Call_GetTempPathW, Call_CreateDirectoryW draft_cacheDir,
            Call_GetFileAttributesExW draft_path, Call_GetHBITMAP (placeholderBitmap 0)]) \<and>
   FAILED E_FAIL"
  using GetThumbnail_status_iff_handle [OF GetThumbnail_cached]
    GetThumbnail_status_iff_handle [OF GetThumbnail_unreadable_0]
    GetThumbnail_cached GetThumbnail_unreadable_0
  by simp

text \<open>
  C10. The placeholder depends on the requested size only: for two providers with different
  files in two different worlds, \<^verbatim>\<open>GeneratePlaceholder\<close> hands the same bitmap to GDI+ at
  the same size, and when both calls return an image the two images are equal.
\<close>

theorem placeholder_depends_only_on_size:
  "snd (snd (GeneratePlaceholder w1 this1 cx NULL)) = snd (snd (GeneratePlaceholder w2 this2 cx NULL)) \<and>
   (GeneratePlaceholder w1 this1 cx NULL = (hr1, Some image1, calls1) \<and>
    GeneratePlaceholder w2 this2 cx NULL = (hr2, Some image2, calls2) \<longrightarrow> image1 = image2)"
  by (auto simp: GeneratePlaceholder_result split: if_splits)

theorem placeholder_depends_only_on_size_witness:
  "GeneratePlaceholder bare_world draft_provider 256 NULL =
     (S_OK, Some (GdiBitmap (placeholderBitmap 256) (ARGB 255 255 255 255)),
      [Call_GetHBITMAP (placeholderBitmap 256)]) \<and>
   GeneratePlaceholder cached_world other_provider 256 NULL =
     (S_OK, Some (GdiBitmap (placeholderBitmap 256) (ARGB 255 255 255 255)),
      [Call_GetHBITMAP (placeholderBitmap 256)]) \<and>
   m_filePath draft_provider \<noteq> m_filePath other_provider \<and>
   PathFileExistsW bare_world draft_cache \<noteq> PathFileExistsW cached_world draft_cache"
proof -
  have a: "GeneratePlaceholder bare_world draft_provider 256 NULL =
     (S_OK, Some (GdiBitmap (placeholderBitmap 256) (ARGB 255 255 255 255)),
      [Call_GetHBITMAP (placeholderBitmap 256)])"
    by (simp add: GeneratePlaceholder_result placeholderBitmap_256 bare_world_def)
  have b: "GeneratePlaceholder cached_world other_provider 256 NULL =
     (S_OK, Some (GdiBitmap (placeholderBitmap 256) (ARGB 255 255 255 255)),
      [Call_GetHBITMAP (placeholderBitmap 256)])"
    by (simp add: GeneratePlaceholder_result placeholderBitmap_256 cached_world_def bare_world_def)
  have c: "m_filePath draft_provider \<noteq> m_filePath other_provider"
    by (simp add: world_defs)
  have d: "PathFileExistsW bare_world draft_cache \<noteq> PathFileExistsW cached_world draft_cache"
    by (simp add: cached_world_def bare_world_def)
  from placeholder_depends_only_on_size
         [of bare_world draft_provider 256 cached_world other_provider] a b c d
  show ?thesis by simp
qed

end
